theory Spec2Isabelle
  imports Main "HOL-Library.Word"
begin

unbundle bit_operations_syntax

section \<open>The Hetzner machine driver\<close>

text \<open>
  A shallow embedding of the Go package \<open>driver\<close>: the complete driver
  (\<open>Driver\<close> with \<open>ServerID\<close> and \<open>SSHKeyID\<close>, real power calls and the bounded
  address poll) together with \<open>helper.go\<close>. Everything outside the package (the provider
  client, the operating system, the key libraries, the clock) is a parameter: a record of
  operations over an opaque world, and every call the driver makes to it is logged with
  its arguments and its answer.
\<close>

subsection \<open>Data\<close>

type_synonym int64 = "64 word"
type_synonym bytes = string
type_synonym FileMode = "32 word"

text \<open>\<open>net.IP\<close> of a public IPv4 address: four octets. A nil \<open>net.IP\<close> is \<open>None\<close>.\<close>

datatype IP = IPv4 "8 word" "8 word" "8 word" "8 word"

text \<open>\<open>state.State\<close> of libmachine.\<close>

datatype State = StateNone | Running | Paused | Saved | Stopped | Stopping | Starting
  | StateError | Timeout

text \<open>
  Modelled from the spec: the failure kinds of the provider gateway and of the local
  platform (sections 4.1, 4.2 and 7); the Go values are opaque \<open>error\<close>s of the libraries.
\<close>

datatype cause = NotFoundError | AuthError | ConflictError | QuotaError
  | InvalidParameterError | ActionFailedError | ActionTimeoutError | TransientError
  | KeyGenerationError | PersistenceError

text \<open>
  The errors the driver itself builds with \<open>fmt.Errorf\<close>, one constructor per message;
  \<open>%w\<close> wraps the cause, \<open>%d\<close> prints the identifier.
\<close>

datatype error =
    TokenRequired                    \<comment> \<open>hetzner-api-token is required\<close>
  | StorePathEmptyCreate             \<comment> \<open>storePath is empty, cannot create SSH key\<close>
  | StorePathEmptyWrite              \<comment> \<open>storePath is empty, cannot write SSH key\<close>
  | GeneratingRSAKey cause           \<comment> \<open>generating RSA key: %w\<close>
  | CreatingPublicKey cause          \<comment> \<open>creating public key: %w\<close>
  | CreatingStoreDirectory cause     \<comment> \<open>creating store directory: %w\<close>
  | WritingPrivateKey cause          \<comment> \<open>writing private key: %w\<close>
  | GeneratingSSHKey error           \<comment> \<open>generating SSH key: %w\<close>
  | CreatingSSHKeyInCloud cause      \<comment> \<open>creating SSH key in Hetzner Cloud: %w\<close>
  | ErrorCreatingServer cause        \<comment> \<open>error creating Hetzner server: %w\<close>
  | WaitingForCreation cause         \<comment> \<open>waiting for server creation: %w\<close>
  | FetchingServer int64 cause       \<comment> \<open>fetching server %d: %w\<close>
  | NoPublicIPv4AfterTimeout int64   \<comment> \<open>server %d has no public IPv4 after timeout\<close>
  | DeletingServer int64 cause       \<comment> \<open>deleting server %d: %w\<close>
  | WaitingForDeletion cause         \<comment> \<open>waiting for server deletion: %w\<close>
  | DeletingSSHKey int64 cause       \<comment> \<open>deleting SSH key %d: %w\<close>
  | IPAddressNotAvailable            \<comment> \<open>IP address not available\<close>
  | NoIPAddressYet                   \<comment> \<open>no IP address available yet\<close>
  | ServerIDNotSet                   \<comment> \<open>server ID not set\<close>
  | CannotFetchServer int64 cause    \<comment> \<open>cannot fetch server %d: %w\<close>
  | PoweringOn int64 cause           \<comment> \<open>powering on server %d: %w\<close>
  | PoweringOff int64 cause          \<comment> \<open>powering off server %d: %w\<close>
  | Rebooting int64 cause            \<comment> \<open>rebooting server %d: %w\<close>

text \<open>A Go call either returns or panics (a nil pointer dereference).\<close>

datatype 'a outcome = Returned 'a | Panicked

text \<open>
  \<open>Driver\<close>, with the fields of the embedded \<open>*drivers.BaseDriver\<close> that the package
  reads or writes.
\<close>

record Driver =
  MachineName :: string
  StorePath :: string
  SSHUser :: string
  SSHKeyPath :: string
  IPAddress :: string
  APIToken :: string
  ServerID :: int64
  SSHKeyID :: int64
  ServerType :: string
  Image :: string
  Region :: string

subsection \<open>The provider client's values\<close>

record SSHKey =
  SSHKey_ID :: int64
  SSHKey_Name :: string
  SSHKey_PublicKey :: string

record Action =
  Action_ID :: int64

record Server =
  Server_ID :: int64
  Server_Status :: string
  PublicNet_IPv4_IP :: "IP option"

record ServerCreateOpts =
  Opts_Name :: string
  Opts_ServerType :: string
  Opts_Image :: string
  Opts_Location :: string
  Opts_SSHKeys :: "SSHKey list"

record ServerCreateResult =
  Create_Server :: Server
  Create_Action :: "Action option"

record ServerDeleteResult =
  Delete_Action :: "Action option"

text \<open>\<open>hcloud.ServerStatusRunning\<close> and \<open>hcloud.ServerStatusOff\<close>.\<close>

definition ServerStatusRunning :: string where
  "ServerStatusRunning = ''running''"

definition ServerStatusOff :: string where
  "ServerStatusOff = ''off''"

text \<open>\<open>time.Second\<close>, a \<open>Duration\<close> (an \<open>int64\<close> of nanoseconds).\<close>

definition time_Second :: int64 where
  "time_Second = 1000000000"

subsection \<open>The world outside the package\<close>

text \<open>Every call that leaves the package, with its arguments and its answer.\<close>

datatype event =
    EvGenerateKey nat
  | EvMkdirAll string FileMode "cause option"
  | EvWriteFile string bytes FileMode "cause option"
  | EvSSHKeyCreate string string "cause + SSHKey"
  | EvServerCreate ServerCreateOpts "cause + ServerCreateResult"
  | EvActionWait Action "cause option"
  | EvServerGetByID int64 "cause + Server option"
  | EvSleep int64
  | EvServerDelete int64 "cause + ServerDeleteResult"
  | EvSSHKeyDelete int64 "cause option"
  | EvPoweron Server "cause option"
  | EvPoweroff Server "cause option"
  | EvReboot Server "cause option"

text \<open>
  The operations of the libraries, over an opaque world \<open>'w\<close>; \<open>'k\<close> is an RSA private
  key and \<open>'p\<close> an SSH public key. \<open>Server_GetByID\<close> answers \<open>Inr None\<close> for the
  client's \<open>(nil, resp, nil)\<close>, a server that does not exist.
\<close>

record ('w, 'k, 'p) platform =
  rsa_GenerateKey :: "nat \<Rightarrow> 'w \<Rightarrow> (cause + 'k) \<times> 'w"
  pem_EncodePrivateKey :: "'k \<Rightarrow> bytes"
  ssh_NewPublicKey :: "'k \<Rightarrow> cause + 'p"
  ssh_MarshalAuthorizedKey :: "'p \<Rightarrow> bytes"
  os_MkdirAll :: "string \<Rightarrow> FileMode \<Rightarrow> 'w \<Rightarrow> cause option \<times> 'w"
  os_WriteFile :: "string \<Rightarrow> bytes \<Rightarrow> FileMode \<Rightarrow> 'w \<Rightarrow> cause option \<times> 'w"
  time_Sleep :: "int64 \<Rightarrow> 'w \<Rightarrow> 'w"
  SSHKey_Create :: "string \<Rightarrow> string \<Rightarrow> 'w \<Rightarrow> (cause + SSHKey) \<times> 'w"
  SSHKey_Delete :: "int64 \<Rightarrow> 'w \<Rightarrow> cause option \<times> 'w"
  Server_Create :: "ServerCreateOpts \<Rightarrow> 'w \<Rightarrow> (cause + ServerCreateResult) \<times> 'w"
  Server_GetByID :: "int64 \<Rightarrow> 'w \<Rightarrow> (cause + Server option) \<times> 'w"
  Server_DeleteWithResult :: "int64 \<Rightarrow> 'w \<Rightarrow> (cause + ServerDeleteResult) \<times> 'w"
  Server_Poweron :: "Server \<Rightarrow> 'w \<Rightarrow> cause option \<times> 'w"
  Server_Poweroff :: "Server \<Rightarrow> 'w \<Rightarrow> cause option \<times> 'w"
  Server_Reboot :: "Server \<Rightarrow> 'w \<Rightarrow> cause option \<times> 'w"
  Action_WaitFor :: "Action \<Rightarrow> 'w \<Rightarrow> cause option \<times> 'w"

text \<open>The world and the log of the calls made so far, oldest first.\<close>

record 'w sys =
  world :: 'w
  trace :: "event list"

definition logged :: "'w sys \<Rightarrow> 'w \<Rightarrow> event \<Rightarrow> 'w sys" where
  "logged s w e = s\<lparr>world := w, trace := trace s @ [e]\<rparr>"

definition do_GenerateKey :: "('w, 'k, 'p) platform \<Rightarrow> nat \<Rightarrow> 'w sys \<Rightarrow> (cause + 'k) \<times> 'w sys" where
  "do_GenerateKey P bits s =
     (case rsa_GenerateKey P bits (world s) of (r, w) \<Rightarrow> (r, logged s w (EvGenerateKey bits)))"

definition do_MkdirAll :: "('w, 'k, 'p) platform \<Rightarrow> string \<Rightarrow> FileMode \<Rightarrow> 'w sys \<Rightarrow> cause option \<times> 'w sys" where
  "do_MkdirAll P path perm s =
     (case os_MkdirAll P path perm (world s) of (r, w) \<Rightarrow> (r, logged s w (EvMkdirAll path perm r)))"

definition do_WriteFile :: "('w, 'k, 'p) platform \<Rightarrow> string \<Rightarrow> bytes \<Rightarrow> FileMode \<Rightarrow> 'w sys \<Rightarrow> cause option \<times> 'w sys" where
  "do_WriteFile P path dat perm s =
     (case os_WriteFile P path dat perm (world s) of
        (r, w) \<Rightarrow> (r, logged s w (EvWriteFile path dat perm r)))"

definition do_Sleep :: "('w, 'k, 'p) platform \<Rightarrow> int64 \<Rightarrow> 'w sys \<Rightarrow> 'w sys" where
  "do_Sleep P dur s = logged s (time_Sleep P dur (world s)) (EvSleep dur)"

definition do_SSHKey_Create :: "('w, 'k, 'p) platform \<Rightarrow> string \<Rightarrow> string \<Rightarrow> 'w sys \<Rightarrow> (cause + SSHKey) \<times> 'w sys" where
  "do_SSHKey_Create P name pub s =
     (case SSHKey_Create P name pub (world s) of
        (r, w) \<Rightarrow> (r, logged s w (EvSSHKeyCreate name pub r)))"

definition do_SSHKey_Delete :: "('w, 'k, 'p) platform \<Rightarrow> int64 \<Rightarrow> 'w sys \<Rightarrow> cause option \<times> 'w sys" where
  "do_SSHKey_Delete P i s =
     (case SSHKey_Delete P i (world s) of (r, w) \<Rightarrow> (r, logged s w (EvSSHKeyDelete i r)))"

definition do_Server_Create :: "('w, 'k, 'p) platform \<Rightarrow> ServerCreateOpts \<Rightarrow> 'w sys \<Rightarrow> (cause + ServerCreateResult) \<times> 'w sys" where
  "do_Server_Create P opts s =
     (case Server_Create P opts (world s) of
        (r, w) \<Rightarrow> (r, logged s w (EvServerCreate opts r)))"

definition do_Server_GetByID :: "('w, 'k, 'p) platform \<Rightarrow> int64 \<Rightarrow> 'w sys \<Rightarrow> (cause + Server option) \<times> 'w sys" where
  "do_Server_GetByID P i s =
     (case Server_GetByID P i (world s) of (r, w) \<Rightarrow> (r, logged s w (EvServerGetByID i r)))"

definition do_Server_Delete :: "('w, 'k, 'p) platform \<Rightarrow> int64 \<Rightarrow> 'w sys \<Rightarrow> (cause + ServerDeleteResult) \<times> 'w sys" where
  "do_Server_Delete P i s =
     (case Server_DeleteWithResult P i (world s) of
        (r, w) \<Rightarrow> (r, logged s w (EvServerDelete i r)))"

definition do_Poweron :: "('w, 'k, 'p) platform \<Rightarrow> Server \<Rightarrow> 'w sys \<Rightarrow> cause option \<times> 'w sys" where
  "do_Poweron P srv s =
     (case Server_Poweron P srv (world s) of (r, w) \<Rightarrow> (r, logged s w (EvPoweron srv r)))"

definition do_Poweroff :: "('w, 'k, 'p) platform \<Rightarrow> Server \<Rightarrow> 'w sys \<Rightarrow> cause option \<times> 'w sys" where
  "do_Poweroff P srv s =
     (case Server_Poweroff P srv (world s) of (r, w) \<Rightarrow> (r, logged s w (EvPoweroff srv r)))"

definition do_Reboot :: "('w, 'k, 'p) platform \<Rightarrow> Server \<Rightarrow> 'w sys \<Rightarrow> cause option \<times> 'w sys" where
  "do_Reboot P srv s =
     (case Server_Reboot P srv (world s) of (r, w) \<Rightarrow> (r, logged s w (EvReboot srv r)))"

definition do_WaitFor :: "('w, 'k, 'p) platform \<Rightarrow> Action \<Rightarrow> 'w sys \<Rightarrow> cause option \<times> 'w sys" where
  "do_WaitFor P a s =
     (case Action_WaitFor P a (world s) of (r, w) \<Rightarrow> (r, logged s w (EvActionWait a r)))"

subsection \<open>Library functions that the package computes with\<close>

text \<open>
  \<open>filepath.Join\<close> of the Go library on Unix: the elements from the first non-empty one
  on are joined with the separator and the result is cleaned (\<open>filepath.Clean\<close>): empty
  and \<open>.\<close> elements go, a \<open>..\<close> element removes the element before it (at the root
  it goes, at the start of a relative path it stays), and the empty path is \<open>.\<close>.
\<close>

fun split_sep :: "string \<Rightarrow> string list" where
  "split_sep [] = [[]]"
| "split_sep (c # cs) =
     (if c = CHR ''/'' then [] # split_sep cs
      else (case split_sep cs of [] \<Rightarrow> [[c]] | x # xs \<Rightarrow> (c # x) # xs))"

fun join_sep :: "string list \<Rightarrow> string" where
  "join_sep [] = []"
| "join_sep [x] = x"
| "join_sep (x # y # ys) = x @ ''/'' @ join_sep (y # ys)"

text \<open>One path element of \<open>Clean\<close>; \<open>out\<close> is the output so far, last element first.\<close>

definition clean_step :: "bool \<Rightarrow> string \<Rightarrow> string list \<Rightarrow> string list" where
  "clean_step rooted c out =
     (if c = [] \<or> c = ''.'' then out
      else if c = ''..'' then
        (case out of
           [] \<Rightarrow> if rooted then [] else [''..'']
         | p # ps \<Rightarrow> if p = ''..'' then ''..'' # out else ps)
      else c # out)"

definition filepath_Clean :: "string \<Rightarrow> string" where
  "filepath_Clean path =
     (if path = [] then ''.''
      else
        let rooted = (hd path = CHR ''/'');
            out = rev (fold (clean_step rooted) (split_sep path) []);
            res = (if rooted then ''/'' else []) @ join_sep out
        in if res = [] then ''.'' else res)"

definition filepath_Join :: "string list \<Rightarrow> string" where
  "filepath_Join elem =
     (case dropWhile (\<lambda>e. e = []) elem of
        [] \<Rightarrow> []
      | e # es \<Rightarrow> filepath_Clean (join_sep (e # es)))"

text \<open>\<open>net.IP.String\<close> of an IPv4 address: dotted decimal.\<close>

fun decimal :: "nat \<Rightarrow> string" where
  "decimal n =
     (if n < 10 then [''0123456789'' ! n]
      else decimal (n div 10) @ [''0123456789'' ! (n mod 10)])"

declare decimal.simps [simp del]

fun IP_String :: "IP \<Rightarrow> string" where
  "IP_String (IPv4 a b c d) =
     decimal (unat a) @ ''.'' @ decimal (unat b) @ ''.'' @ decimal (unat c) @ ''.''
       @ decimal (unat d)"

text \<open>The permission bits \<open>0700\<close> and \<open>0600\<close> (octal).\<close>

definition mode_0700 :: FileMode where
  "mode_0700 = 7 * 8 * 8"

definition mode_0600 :: FileMode where
  "mode_0600 = 6 * 8 * 8"

subsection \<open>driver.go: configuration\<close>

definition NewDriver :: "string \<Rightarrow> string \<Rightarrow> Driver" where
  "NewDriver machineName storePath =
     \<lparr>MachineName = machineName, StorePath = storePath, SSHUser = ''root'',
      SSHKeyPath = [], IPAddress = [], APIToken = [], ServerID = 0, SSHKeyID = 0,
      ServerType = [], Image = [], Region = []\<rparr>"

text \<open>\<open>opts.String\<close> of \<open>drivers.DriverOptions\<close> is a function from flag names to values.\<close>

definition SetConfigFromFlags :: "(string \<Rightarrow> string) \<Rightarrow> Driver \<Rightarrow> error option \<times> Driver" where
  "SetConfigFromFlags opts d =
     (let d = d\<lparr>APIToken := opts ''hetzner-api-token''\<rparr>;
          d = d\<lparr>ServerType := opts ''hetzner-server-type''\<rparr>;
          d = d\<lparr>Image := opts ''hetzner-image''\<rparr>;
          d = d\<lparr>Region := opts ''hetzner-location''\<rparr>;
          d = d\<lparr>SSHUser := ''root''\<rparr>
      in if APIToken d = [] then (Some TokenRequired, d) else (None, d))"

definition PreCreateCheck :: "Driver \<Rightarrow> error option" where
  "PreCreateCheck d = (if APIToken d = [] then Some TokenRequired else None)"

subsection \<open>helper.go: the SSH key\<close>

text \<open>
  \<open>generateSSHKey\<close> returns the public key bytes or an error; the record changes only
  on success (\<open>d.SSHKeyPath = keyPath\<close>). The debug log line is left out.
\<close>

definition generateSSHKey ::
  "('w, 'k, 'p) platform \<Rightarrow> Driver \<Rightarrow> 'w sys \<Rightarrow> (error + bytes) \<times> Driver \<times> 'w sys" where
  "generateSSHKey P d s =
     (if StorePath d = [] then (Inl StorePathEmptyWrite, d, s)
      else
        (case do_GenerateKey P 2048 s of
           (Inl c, s1) \<Rightarrow> (Inl (GeneratingRSAKey c), d, s1)
         | (Inr key, s1) \<Rightarrow>
             (let privBytes = pem_EncodePrivateKey P key in
              case ssh_NewPublicKey P key of
                Inl c \<Rightarrow> (Inl (CreatingPublicKey c), d, s1)
              | Inr pub \<Rightarrow>
                  (let pubBytes = ssh_MarshalAuthorizedKey P pub;
                       fileName = MachineName d @ ''_id_rsa'';
                       keyPath = filepath_Join [StorePath d, fileName @ []]
                   in case do_MkdirAll P (StorePath d) mode_0700 s1 of
                        (Some c, s2) \<Rightarrow> (Inl (CreatingStoreDirectory c), d, s2)
                      | (None, s2) \<Rightarrow>
                          (case do_WriteFile P keyPath privBytes mode_0600 s2 of
                             (Some c, s3) \<Rightarrow> (Inl (WritingPrivateKey c), d, s3)
                           | (None, s3) \<Rightarrow>
                               (Inr pubBytes, d\<lparr>SSHKeyPath := keyPath\<rparr>, s3))))))"

subsection \<open>driver.go: Create\<close>

text \<open>
  The loop \<open>for i := 0; i < 30; i++\<close> of step 5. The first component is \<open>Some\<close> when the
  loop body leaves \<open>Create\<close> (the error return, or the panic of \<open>srv.PublicNet\<close> on a
  nil \<open>srv\<close>), and \<open>None\<close> when the loop ends, by \<open>break\<close> or by its bound.
\<close>

function poll ::
  "('w, 'k, 'p) platform \<Rightarrow> nat \<Rightarrow> Driver \<Rightarrow> 'w sys
     \<Rightarrow> error option outcome option \<times> Driver \<times> 'w sys" where
  "poll P i d s =
     (if i < 30 then
        (case do_Server_GetByID P (ServerID d) s of
           (Inl c, s1) \<Rightarrow> (Some (Returned (Some (FetchingServer (ServerID d) c))), d, s1)
         | (Inr None, s1) \<Rightarrow> (Some Panicked, d, s1)
         | (Inr (Some srv), s1) \<Rightarrow>
             (case PublicNet_IPv4_IP srv of
                Some ip \<Rightarrow> (None, d\<lparr>IPAddress := IP_String ip\<rparr>, s1)
              | None \<Rightarrow> poll P (i + 1) d (do_Sleep P (2 * time_Second) s1)))
      else (None, d, s))"
  by pat_completeness auto
termination
  by (relation "measure (\<lambda>(P, i, d, s). 30 - i)") auto

declare poll.simps [simp del]

definition Create ::
  "('w, 'k, 'p) platform \<Rightarrow> Driver \<Rightarrow> 'w sys \<Rightarrow> error option outcome \<times> Driver \<times> 'w sys" where
  "Create P d s =
     (if StorePath d = [] then (Returned (Some StorePathEmptyCreate), d, s)
      else
        (case generateSSHKey P d s of
           (Inl e, d1, s1) \<Rightarrow> (Returned (Some (GeneratingSSHKey e)), d1, s1)
         | (Inr publicKey, d1, s1) \<Rightarrow>
             (let keyName = ''rancher-'' @ MachineName d1 in
              case do_SSHKey_Create P keyName publicKey s1 of
                (Inl c, s2) \<Rightarrow> (Returned (Some (CreatingSSHKeyInCloud c)), d1, s2)
              | (Inr hkey, s2) \<Rightarrow>
                  (let d2 = d1\<lparr>SSHKeyID := SSHKey_ID hkey\<rparr>;
                       serverOpts = \<lparr>Opts_Name = MachineName d2,
                                     Opts_ServerType = ServerType d2,
                                     Opts_Image = Image d2,
                                     Opts_Location = Region d2,
                                     Opts_SSHKeys = [hkey]\<rparr>
                   in case do_Server_Create P serverOpts s2 of
                        (Inl c, s3) \<Rightarrow> (Returned (Some (ErrorCreatingServer c)), d2, s3)
                      | (Inr createResult, s3) \<Rightarrow>
                          (let server = Create_Server createResult;
                               d3 = d2\<lparr>ServerID := Server_ID server\<rparr>;
                               (waited, s4) =
                                 (case Create_Action createResult of
                                    None \<Rightarrow> (None, s3)
                                  | Some a \<Rightarrow> do_WaitFor P a s3)
                           in case waited of
                                Some c \<Rightarrow> (Returned (Some (WaitingForCreation c)), d3, s4)
                              | None \<Rightarrow>
                                  (case poll P 0 d3 s4 of
                                     (Some out, d4, s5) \<Rightarrow> (out, d4, s5)
                                   | (None, d4, s5) \<Rightarrow>
                                       if IPAddress d4 = []
                                       then (Returned (Some (NoPublicIPv4AfterTimeout (ServerID d4))), d4, s5)
                                       else (Returned None, d4, s5)))))))"

subsection \<open>driver.go: Remove and the accessors\<close>

definition Remove :: "('w, 'k, 'p) platform \<Rightarrow> Driver \<Rightarrow> 'w sys \<Rightarrow> error option \<times> 'w sys" where
  "Remove P d s =
     (let (err, s2) =
        (if ServerID d \<noteq> 0 then
           (case do_Server_Delete P (ServerID d) s of
              (Inl c, s1) \<Rightarrow> (Some (DeletingServer (ServerID d) c), s1)
            | (Inr delRes, s1) \<Rightarrow>
                (case Delete_Action delRes of
                   None \<Rightarrow> (None, s1)
                 | Some a \<Rightarrow>
                     (case do_WaitFor P a s1 of
                        (Some c, s1') \<Rightarrow> (Some (WaitingForDeletion c), s1')
                      | (None, s1') \<Rightarrow> (None, s1'))))
         else (None, s))
      in case err of
           Some e \<Rightarrow> (Some e, s2)
         | None \<Rightarrow>
             (if SSHKeyID d \<noteq> 0 then
                (case do_SSHKey_Delete P (SSHKeyID d) s2 of
                   (Some c, s3) \<Rightarrow> (Some (DeletingSSHKey (SSHKeyID d) c), s3)
                 | (None, s3) \<Rightarrow> (None, s3))
              else (None, s2)))"

definition GetIP :: "Driver \<Rightarrow> string \<times> error option" where
  "GetIP d = (if IPAddress d = [] then ([], Some IPAddressNotAvailable) else (IPAddress d, None))"

definition GetSSHHostname :: "Driver \<Rightarrow> string \<times> error option" where
  "GetSSHHostname d = GetIP d"

definition GetSSHKeyPath :: "Driver \<Rightarrow> string" where
  "GetSSHKeyPath d = SSHKeyPath d"

definition GetSSHUsername :: "Driver \<Rightarrow> string" where
  "GetSSHUsername d = SSHUser d"

definition DriverName :: "Driver \<Rightarrow> string" where
  "DriverName d = ''hetzner''"

text \<open>The \<open>switch srv.Status\<close> of \<open>GetState\<close>.\<close>

definition switch_Status :: "string \<Rightarrow> State" where
  "switch_Status status =
     (if status = ServerStatusRunning then Running
      else if status = ServerStatusOff then Stopped
      else StateNone)"

text \<open>\<open>srv.Status\<close> on a nil \<open>srv\<close> panics.\<close>

definition GetState ::
  "('w, 'k, 'p) platform \<Rightarrow> Driver \<Rightarrow> 'w sys \<Rightarrow> (State \<times> error option) outcome \<times> 'w sys" where
  "GetState P d s =
     (if ServerID d = 0 then (Returned (StateError, Some ServerIDNotSet), s)
      else
        (case do_Server_GetByID P (ServerID d) s of
           (Inl c, s1) \<Rightarrow> (Returned (StateError, Some (FetchingServer (ServerID d) c)), s1)
         | (Inr None, s1) \<Rightarrow> (Panicked, s1)
         | (Inr (Some srv), s1) \<Rightarrow> (Returned (switch_Status (Server_Status srv), None), s1)))"

definition GetURL :: "Driver \<Rightarrow> string \<times> error option" where
  "GetURL d =
     (if IPAddress d = [] then ([], Some NoIPAddressYet)
      else (''tcp://'' @ IPAddress d @ '':2376'', None))"

subsection \<open>driver.go: power operations\<close>

definition Start :: "('w, 'k, 'p) platform \<Rightarrow> Driver \<Rightarrow> 'w sys \<Rightarrow> error option \<times> 'w sys" where
  "Start P d s =
     (if ServerID d = 0 then (Some ServerIDNotSet, s)
      else
        (case do_Server_GetByID P (ServerID d) s of
           (Inl c, s1) \<Rightarrow> (Some (CannotFetchServer (ServerID d) c), s1)
         | (Inr None, s1) \<Rightarrow> (None, s1)
         | (Inr (Some srv), s1) \<Rightarrow>
             (case do_Poweron P srv s1 of
                (Some c, s2) \<Rightarrow> (Some (PoweringOn (ServerID d) c), s2)
              | (None, s2) \<Rightarrow> (None, s2))))"

definition Stop :: "('w, 'k, 'p) platform \<Rightarrow> Driver \<Rightarrow> 'w sys \<Rightarrow> error option \<times> 'w sys" where
  "Stop P d s =
     (if ServerID d = 0 then (Some ServerIDNotSet, s)
      else
        (case do_Server_GetByID P (ServerID d) s of
           (Inl c, s1) \<Rightarrow> (Some (CannotFetchServer (ServerID d) c), s1)
         | (Inr None, s1) \<Rightarrow> (None, s1)
         | (Inr (Some srv), s1) \<Rightarrow>
             (case do_Poweroff P srv s1 of
                (Some c, s2) \<Rightarrow> (Some (PoweringOff (ServerID d) c), s2)
              | (None, s2) \<Rightarrow> (None, s2))))"

definition Restart :: "('w, 'k, 'p) platform \<Rightarrow> Driver \<Rightarrow> 'w sys \<Rightarrow> error option \<times> 'w sys" where
  "Restart P d s =
     (if ServerID d = 0 then (Some ServerIDNotSet, s)
      else
        (case do_Server_GetByID P (ServerID d) s of
           (Inl c, s1) \<Rightarrow> (Some (CannotFetchServer (ServerID d) c), s1)
         | (Inr None, s1) \<Rightarrow> (None, s1)
         | (Inr (Some srv), s1) \<Rightarrow>
             (case do_Reboot P srv s1 of
                (Some c, s2) \<Rightarrow> (Some (Rebooting (ServerID d) c), s2)
              | (None, s2) \<Rightarrow> (None, s2))))"

definition Kill :: "('w, 'k, 'p) platform \<Rightarrow> Driver \<Rightarrow> 'w sys \<Rightarrow> error option \<times> 'w sys" where
  "Kill P d s = Stop P d s"

subsection \<open>driver.go: the earlier variant\<close>

text \<open>
  The repository also keeps an earlier \<open>driver.go\<close> (no \<open>SSHKeyID\<close>, no poll, power
  operations that do nothing) and an earlier \<open>generateSSHKey\<close>. Its
  \<open>SetConfigFromFlags\<close> is the one above, word for word. The functions that differ
  carry the suffix \<open>_proto\<close>.
\<close>

definition generateSSHKey_proto ::
  "('w, 'k, 'p) platform \<Rightarrow> Driver \<Rightarrow> 'w sys \<Rightarrow> (error + bytes) \<times> Driver \<times> 'w sys" where
  "generateSSHKey_proto P d s =
     (case do_GenerateKey P 2048 s of
        (Inl c, s1) \<Rightarrow> (Inl (GeneratingRSAKey c), d, s1)
      | (Inr key, s1) \<Rightarrow>
          (let privBytes = pem_EncodePrivateKey P key in
           case ssh_NewPublicKey P key of
             Inl c \<Rightarrow> (Inl (CreatingPublicKey c), d, s1)
           | Inr pub \<Rightarrow>
               (let pubBytes = ssh_MarshalAuthorizedKey P pub;
                    storePath = StorePath d;
                    keyPath = filepath_Join [storePath, ''id_rsa'']
                in case do_MkdirAll P storePath mode_0700 s1 of
                     (Some c, s2) \<Rightarrow> (Inl (CreatingStoreDirectory c), d, s2)
                   | (None, s2) \<Rightarrow>
                       (case do_WriteFile P keyPath privBytes mode_0600 s2 of
                          (Some c, s3) \<Rightarrow> (Inl (WritingPrivateKey c), d, s3)
                        | (None, s3) \<Rightarrow>
                            (Inr pubBytes, d\<lparr>SSHKeyPath := keyPath\<rparr>, s3)))))"

definition Remove_proto :: "('w, 'k, 'p) platform \<Rightarrow> Driver \<Rightarrow> 'w sys \<Rightarrow> error option \<times> 'w sys" where
  "Remove_proto P d s =
     (if ServerID d \<noteq> 0 then
        (case do_Server_Delete P (ServerID d) s of
           (Inl c, s1) \<Rightarrow> (Some (DeletingServer (ServerID d) c), s1)
         | (Inr delRes, s1) \<Rightarrow> (None, s1))
      else (None, s))"

definition GetIP_proto :: "Driver \<Rightarrow> string \<times> error option" where
  "GetIP_proto d = (IPAddress d, None)"

definition GetState_proto :: "Driver \<Rightarrow> State \<times> error option" where
  "GetState_proto d = (Running, None)"

definition Start_proto :: "Driver \<Rightarrow> error option" where
  "Start_proto d = None"

definition Stop_proto :: "Driver \<Rightarrow> error option" where
  "Stop_proto d = None"

definition Restart_proto :: "Driver \<Rightarrow> error option" where
  "Restart_proto d = None"

definition Kill_proto :: "Driver \<Rightarrow> error option" where
  "Kill_proto d = None"

section \<open>What the log of calls may look like\<close>

text \<open>
  The poll of \<open>Create\<close> as seen from outside: queries for server \<open>i\<close>, at most \<open>n\<close> of
  them, each query that finds a server without an address followed by a sleep of two
  seconds, and nothing after a query that fails, finds no server or finds an address.
  The empty log is a poll whose bound is used up.
\<close>

fun polling :: "int64 \<Rightarrow> nat \<Rightarrow> event list \<Rightarrow> bool" where
  "polling i n [] = (n = 0)"
| "polling i n (EvServerGetByID j (Inr (Some srv)) # EvSleep t # es) =
     (0 < n \<and> j = i \<and> PublicNet_IPv4_IP srv = None \<and> t = 2 * time_Second
      \<and> polling i (n - 1) es)"
| "polling i n [EvServerGetByID j r] =
     (0 < n \<and> j = i \<and>
      (case r of Inr (Some srv) \<Rightarrow> PublicNet_IPv4_IP srv \<noteq> None | _ \<Rightarrow> True))"
| "polling i n es = False"

text \<open>What the poll hands back to \<open>Create\<close>, read off its log.\<close>

definition poll_result :: "Driver \<Rightarrow> event list \<Rightarrow> error option outcome option \<times> Driver" where
  "poll_result d evs =
     (if evs = [] then (None, d)
      else
        (case last evs of
           EvServerGetByID j r \<Rightarrow>
             (case r of
                Inl c \<Rightarrow> (Some (Returned (Some (FetchingServer (ServerID d) c))), d)
              | Inr None \<Rightarrow> (Some Panicked, d)
              | Inr (Some srv) \<Rightarrow>
                  (case PublicNet_IPv4_IP srv of
                     Some ip \<Rightarrow> (None, d\<lparr>IPAddress := IP_String ip\<rparr>)
                   | None \<Rightarrow> (None, d)))
         | _ \<Rightarrow> (None, d)))"

definition is_query :: "event \<Rightarrow> bool" where
  "is_query e = (case e of EvServerGetByID _ _ \<Rightarrow> True | _ \<Rightarrow> False)"

text \<open>The address a query was answered with, if any.\<close>

definition answered :: "event \<Rightarrow> IP option" where
  "answered e =
     (case e of
        EvServerGetByID _ (Inr (Some srv)) \<Rightarrow> PublicNet_IPv4_IP srv
      | _ \<Rightarrow> None)"

text \<open>Calls to the operating system and the key libraries, as opposed to the provider.\<close>

definition is_local :: "event \<Rightarrow> bool" where
  "is_local e =
     (case e of EvGenerateKey _ \<Rightarrow> True | EvMkdirAll _ _ _ \<Rightarrow> True
      | EvWriteFile _ _ _ _ \<Rightarrow> True | _ \<Rightarrow> False)"

text \<open>
  One \<open>Create\<close> as seen from outside, from the poll back to the upload: the calls it
  makes to the provider, in order, with the result it returns and the record it leaves.
  The poll of the record \<open>d3\<close>: what the loop hands back decides, and after a loop that
  ended the test of the address field does.
\<close>

definition polled :: "Driver \<Rightarrow> event list \<Rightarrow> error option outcome \<Rightarrow> Driver \<Rightarrow> bool" where
  "polled d3 pev out d' =
     (polling (ServerID d3) 30 pev \<and>
      (case poll_result d3 pev of
         (Some left, d4) \<Rightarrow> out = left \<and> d' = d4
       | (None, d4) \<Rightarrow>
           d' = d4 \<and>
           out = (if IPAddress d4 = []
                  then Returned (Some (NoPublicIPv4AfterTimeout (ServerID d4)))
                  else Returned None)))"

text \<open>After a successful creation: the wait for its action, if it has one, then the poll.\<close>

definition created ::
  "Driver \<Rightarrow> ServerCreateResult \<Rightarrow> event list \<Rightarrow> error option outcome \<Rightarrow> Driver \<Rightarrow> bool" where
  "created d3 res es out d' =
     (case Create_Action res of
        None \<Rightarrow> polled d3 es out d'
      | Some a \<Rightarrow>
          (case es of
             [] \<Rightarrow> False
           | e # es' \<Rightarrow>
               (case e of
                  EvActionWait a' w \<Rightarrow>
                    a' = a \<and>
                    (case w of
                       Some c \<Rightarrow>
                         es' = [] \<and> out = Returned (Some (WaitingForCreation c)) \<and> d' = d3
                     | None \<Rightarrow> polled d3 es' out d')
                | _ \<Rightarrow> False)))"

text \<open>After a successful upload: the creation, with exactly the uploaded key.\<close>

definition uploaded ::
  "Driver \<Rightarrow> SSHKey \<Rightarrow> event list \<Rightarrow> error option outcome \<Rightarrow> Driver \<Rightarrow> bool" where
  "uploaded d2 hkey es out d' =
     (case es of
        [] \<Rightarrow> False
      | e # es' \<Rightarrow>
          (case e of
             EvServerCreate opts r \<Rightarrow>
               opts = \<lparr>Opts_Name = MachineName d2, Opts_ServerType = ServerType d2,
                       Opts_Image = Image d2, Opts_Location = Region d2,
                       Opts_SSHKeys = [hkey]\<rparr> \<and>
               (case r of
                  Inl c \<Rightarrow> es' = [] \<and> out = Returned (Some (ErrorCreatingServer c)) \<and> d' = d2
                | Inr res \<Rightarrow>
                    created (d2\<lparr>ServerID := Server_ID (Create_Server res)\<rparr>) res es' out d')
           | _ \<Rightarrow> False))"

text \<open>After the key is generated: the upload of the public key \<open>pk\<close>.\<close>

definition remote_run ::
  "Driver \<Rightarrow> bytes \<Rightarrow> event list \<Rightarrow> error option outcome \<Rightarrow> Driver \<Rightarrow> bool" where
  "remote_run d1 pk es out d' =
     (case es of
        [] \<Rightarrow> False
      | e # es' \<Rightarrow>
          (case e of
             EvSSHKeyCreate name pub r \<Rightarrow>
               name = ''rancher-'' @ MachineName d1 \<and> pub = pk \<and>
               (case r of
                  Inl c \<Rightarrow> es' = [] \<and> out = Returned (Some (CreatingSSHKeyInCloud c)) \<and> d' = d1
                | Inr hkey \<Rightarrow> uploaded (d1\<lparr>SSHKeyID := SSHKey_ID hkey\<rparr>) hkey es' out d')
           | _ \<Rightarrow> False))"

text \<open>The identifiers that the uploads and the creations of a log returned.\<close>

definition uploaded_keys :: "event list \<Rightarrow> int64 list" where
  "uploaded_keys evs =
     List.map_filter
       (\<lambda>e. case e of EvSSHKeyCreate _ _ (Inr hkey) \<Rightarrow> Some (SSHKey_ID hkey) | _ \<Rightarrow> None) evs"

definition created_servers :: "event list \<Rightarrow> int64 list" where
  "created_servers evs =
     List.map_filter
       (\<lambda>e. case e of EvServerCreate _ (Inr res) \<Rightarrow> Some (Server_ID (Create_Server res))
            | _ \<Rightarrow> None) evs"

section \<open>Reading the log and the paths\<close>

text \<open>A call that the world answered with an error.\<close>

definition failed :: "event \<Rightarrow> bool" where
  "failed e =
     (case e of
        EvMkdirAll _ _ r \<Rightarrow> r \<noteq> None
      | EvWriteFile _ _ _ r \<Rightarrow> r \<noteq> None
      | EvSSHKeyCreate _ _ r \<Rightarrow> isl r
      | EvServerCreate _ r \<Rightarrow> isl r
      | EvActionWait _ r \<Rightarrow> r \<noteq> None
      | EvServerGetByID _ r \<Rightarrow> isl r
      | EvServerDelete _ r \<Rightarrow> isl r
      | EvSSHKeyDelete _ r \<Rightarrow> r \<noteq> None
      | EvPoweron _ r \<Rightarrow> r \<noteq> None
      | EvPoweroff _ r \<Rightarrow> r \<noteq> None
      | EvReboot _ r \<Rightarrow> r \<noteq> None
      | _ \<Rightarrow> False)"

text \<open>
  The calls of one \<open>Remove\<close> and its result: the deletion of key \<open>k\<close>, when there is one
  to delete, and before it the deletion of the server with the wait for its action.
\<close>

definition key_removal :: "int64 \<Rightarrow> event list \<Rightarrow> error option \<Rightarrow> bool" where
  "key_removal k evs res =
     (if k = 0 then evs = [] \<and> res = None
      else
        (case evs of
           [] \<Rightarrow> False
         | e # es \<Rightarrow>
             es = [] \<and>
             (case e of
                EvSSHKeyDelete j r \<Rightarrow> j = k \<and> res = map_option (DeletingSSHKey k) r
              | _ \<Rightarrow> False)))"

definition removal :: "Driver \<Rightarrow> event list \<Rightarrow> error option \<Rightarrow> bool" where
  "removal d evs res =
     (if ServerID d = 0 then key_removal (SSHKeyID d) evs res
      else
        (case evs of
           EvServerDelete j r # es \<Rightarrow>
             j = ServerID d \<and>
             (case r of
                Inl c \<Rightarrow> es = [] \<and> res = Some (DeletingServer j c)
              | Inr delRes \<Rightarrow>
                  (case Delete_Action delRes of
                     None \<Rightarrow> key_removal (SSHKeyID d) es res
                   | Some a \<Rightarrow>
                       (case es of
                          EvActionWait a' w # es' \<Rightarrow>
                            a' = a \<and>
                            (case w of
                               Some c \<Rightarrow> es' = [] \<and> res = Some (WaitingForDeletion c)
                             | None \<Rightarrow> key_removal (SSHKeyID d) es' res)
                        | _ \<Rightarrow> False)))
         | _ \<Rightarrow> False))"

text \<open>The permission bits of the group and of the others, \<open>0077\<close>.\<close>

definition group_other :: FileMode where
  "group_other = 7 * 8 + 7"

text \<open>The directory part of a joined path: what \<open>Join\<close> puts before a plain file name.\<close>

definition dir_prefix :: "string \<Rightarrow> string" where
  "dir_prefix dir =
     (let rooted = (hd dir = CHR ''/'');
          out = rev (fold (clean_step rooted) (split_sep dir) [])
      in (if rooted then ''/'' else []) @ (if out = [] then [] else join_sep out @ ''/''))"

text \<open>A file name that is one path element.\<close>

definition plain_name :: "string \<Rightarrow> bool" where
  "plain_name f = (CHR ''/'' \<notin> set f \<and> f \<noteq> [] \<and> f \<noteq> ''.'' \<and> f \<noteq> ''..'')"

section \<open>A fake gateway\<close>

text \<open>
  A platform to run the driver on: every local call succeeds, the upload answers key 7,
  the creation answers server 42 with no action to wait for, and the world counts the
  queries: query number \<open>k\<close> and every later one finds the address 203.0.113.5, the
  earlier ones find the server without an address.
\<close>

definition fake_server :: "bool \<Rightarrow> Server" where
  "fake_server addressable =
     \<lparr>Server_ID = 42, Server_Status = ''running'',
      PublicNet_IPv4_IP = (if addressable then Some (IPv4 203 0 113 5) else None)\<rparr>"

definition fake_gateway :: "nat \<Rightarrow> (nat, unit, unit) platform" where
  "fake_gateway k =
     \<lparr>rsa_GenerateKey = (\<lambda>bits w. (Inr (), w)),
      pem_EncodePrivateKey = (\<lambda>key. ''PRIVATE''),
      ssh_NewPublicKey = (\<lambda>key. Inr ()),
      ssh_MarshalAuthorizedKey = (\<lambda>pub. ''ssh-rsa AAAA''),
      os_MkdirAll = (\<lambda>path perm w. (None, w)),
      os_WriteFile = (\<lambda>path dat perm w. (None, w)),
      time_Sleep = (\<lambda>dur w. w),
      SSHKey_Create = (\<lambda>name pub w.
        (Inr \<lparr>SSHKey_ID = 7, SSHKey_Name = name, SSHKey_PublicKey = pub\<rparr>, w)),
      SSHKey_Delete = (\<lambda>i w. (None, w)),
      Server_Create = (\<lambda>opts w.
        (Inr \<lparr>Create_Server = fake_server False, Create_Action = None\<rparr>, w)),
      Server_GetByID = (\<lambda>i w. (Inr (Some (fake_server (k \<le> w + 1))), w + 1)),
      Server_DeleteWithResult = (\<lambda>i w. (Inr \<lparr>Delete_Action = None\<rparr>, w)),
      Server_Poweron = (\<lambda>srv w. (None, w)),
      Server_Poweroff = (\<lambda>srv w. (None, w)),
      Server_Reboot = (\<lambda>srv w. (None, w)),
      Action_WaitFor = (\<lambda>a w. (None, w))\<rparr>"

text \<open>The same provider after the server and the key are gone.\<close>

definition gone_gateway :: "(nat, unit, unit) platform" where
  "gone_gateway =
     (fake_gateway 1)
       \<lparr>SSHKey_Delete := (\<lambda>i w. (Some NotFoundError, w)),
        Server_GetByID := (\<lambda>i w. (Inr None, w + 1)),
        Server_DeleteWithResult := (\<lambda>i w. (Inl NotFoundError, w))\<rparr>"

definition start :: "nat sys" where
  "start = \<lparr>world = 0, trace = []\<rparr>"

text \<open>The options of the end-to-end scenario, and the record configured from them.\<close>

definition scenario_opts :: "string \<Rightarrow> string" where
  "scenario_opts flag =
     (if flag = ''hetzner-api-token'' then ''tok''
      else if flag = ''hetzner-server-type'' then ''cx11''
      else if flag = ''hetzner-image'' then ''ubuntu-20.04''
      else if flag = ''hetzner-location'' then ''nbg1''
      else [])"

definition configured :: Driver where
  "configured = snd (SetConfigFromFlags scenario_opts (NewDriver ''node1'' ''/store''))"

section \<open>Properties\<close>

subsection \<open>The log and the poll\<close>

lemma trace_logged [simp]: "trace (logged s w e) = trace s @ [e]"
  by (simp add: logged_def)

lemma world_logged [simp]: "world (logged s w e) = w"
  by (simp add: logged_def)

lemma decimal_not_empty: "decimal n \<noteq> []"
  by (subst decimal.simps) simp

lemma IP_String_not_empty [simp]: "IP_String ip \<noteq> []"
  by (cases ip) (simp add: decimal_not_empty)

lemma poll_result_skip:
  "poll_result d (e # EvSleep t # evs) = poll_result d evs"
  by (simp add: poll_result_def)

text \<open>The loop and its log: what is appended is a poll, and it decides the result.\<close>

lemma poll_spec:
  "i \<le> 30 \<Longrightarrow> poll P i d s = (r, d', s')
     \<Longrightarrow> \<exists>evs. trace s' = trace s @ evs \<and> polling (ServerID d) (30 - i) evs
            \<and> (r, d') = poll_result d evs"
proof (induction P i d s arbitrary: r d' s' rule: poll.induct)
  case (1 P i d s)
  show ?case
  proof (cases "i < 30")
    case False
    with "1.prems" show ?thesis
      by (subst (asm) poll.simps) (auto simp: poll_result_def)
  next
    case True
    obtain a w where g: "Server_GetByID P (ServerID d) (world s) = (a, w)"
      by (cases "Server_GetByID P (ServerID d) (world s)")
    let ?e = "EvServerGetByID (ServerID d) a"
    let ?s1 = "logged s w ?e"
    have dg: "do_Server_GetByID P (ServerID d) s = (a, ?s1)"
      by (simp add: do_Server_GetByID_def g)
    have stop: ?thesis
      if "PublicNet_IPv4_IP srv \<noteq> None" and "a = Inr (Some srv)" for srv
    proof -
      from that "1.prems" True dg have "s' = ?s1 \<and> (r, d') = poll_result d [?e]"
        by (subst (asm) poll.simps) (auto simp: poll_result_def)
      moreover have "polling (ServerID d) (30 - i) [?e]"
        using True that by auto
      ultimately show ?thesis by (metis trace_logged)
    qed
    show ?thesis
    proof (cases a)
      case (Inl c)
      with "1.prems" True dg have "s' = ?s1 \<and> (r, d') = poll_result d [?e]"
        by (subst (asm) poll.simps) (auto simp: poll_result_def)
      moreover have "polling (ServerID d) (30 - i) [?e]"
        using True Inl by simp
      ultimately show ?thesis by (metis trace_logged)
    next
      case (Inr o1)
      show ?thesis
      proof (cases o1)
        case None
        with "1.prems" True dg Inr have "s' = ?s1 \<and> (r, d') = poll_result d [?e]"
          by (subst (asm) poll.simps) (auto simp: poll_result_def)
        moreover have "polling (ServerID d) (30 - i) [?e]"
          using True Inr None by simp
        ultimately show ?thesis by (metis trace_logged)
      next
        case (Some srv)
        show ?thesis
        proof (cases "PublicNet_IPv4_IP srv")
          case (Some ip)
          then show ?thesis using stop [of srv] Inr \<open>o1 = Some srv\<close> by simp
        next
          case None
          let ?s2 = "do_Sleep P (2 * time_Second) ?s1"
          have rec: "poll P (i + 1) d ?s2 = (r, d', s')"
            using "1.prems" True dg Inr None \<open>o1 = Some srv\<close>
            by (subst (asm) poll.simps) simp
          have "\<exists>evs. trace s' = trace ?s2 @ evs \<and> polling (ServerID d) (30 - (i + 1)) evs
                  \<and> (r, d') = poll_result d evs"
            using "1.IH" [OF True dg [symmetric] Inr \<open>o1 = Some srv\<close> None _ rec] True
            by simp
          then obtain evs where e1: "trace s' = trace ?s2 @ evs"
            and e2: "polling (ServerID d) (30 - (i + 1)) evs"
            and e3: "(r, d') = poll_result d evs" by blast
          let ?all = "?e # EvSleep (2 * time_Second) # evs"
          have "trace s' = trace s @ ?all"
            using e1 by (simp add: do_Sleep_def)
          moreover have "polling (ServerID d) (30 - i) ?all"
            using e2 True Inr None \<open>o1 = Some srv\<close> by simp
          moreover have "(r, d') = poll_result d ?all"
            using e3 by (simp only: poll_result_skip)
          ultimately show ?thesis by blast
        qed
      qed
    qed
  qed
qed

lemma poll_spec0:
  "poll P 0 d s = (r, d', s')
     \<Longrightarrow> \<exists>evs. trace s' = trace s @ evs \<and> polling (ServerID d) 30 evs
            \<and> poll_result d evs = (r, d')"
  using poll_spec [of 0 P d s r d' s'] by auto

text \<open>A poll of at most \<open>n\<close> queries has at most \<open>n\<close> queries.\<close>

lemma polling_queries: "polling i n evs \<Longrightarrow> length (filter is_query evs) \<le> n"
  by (induction i n evs rule: polling.induct) (auto simp: is_query_def)

text \<open>A poll that ends without a last answer used all of its queries, none with an address.\<close>

lemma polling_exhausted:
  "polling i n evs \<Longrightarrow> evs = [] \<or> \<not> is_query (last evs)
     \<Longrightarrow> length (filter is_query evs) = n \<and> list_all (\<lambda>e. answered e = None) evs"
  by (induction i n evs rule: polling.induct)
    (auto simp: is_query_def answered_def split: if_splits)


lemma polling_not_empty: "polling i 30 pev \<Longrightarrow> pev \<noteq> []"
  by auto

lemma is_query_simps [simp]:
  "is_query (EvSSHKeyCreate n p r) = False"
  "is_query (EvServerCreate opts c) = False"
  "is_query (EvActionWait a w) = False"
  "is_query (EvSleep t) = False"
  "is_query (EvServerGetByID i g) = True"
  by (simp_all add: is_query_def)

lemma answered_simps [simp]:
  "answered (EvSSHKeyCreate n p r) = None"
  "answered (EvServerCreate opts c) = None"
  "answered (EvActionWait a w) = None"
  "answered (EvSleep t) = None"
  by (simp_all add: answered_def)

lemma uploaded_keys_simps [simp]:
  "uploaded_keys [] = []"
  "uploaded_keys (xs @ ys) = uploaded_keys xs @ uploaded_keys ys"
  "uploaded_keys (EvSSHKeyCreate n p (Inr hkey) # xs) = SSHKey_ID hkey # uploaded_keys xs"
  "uploaded_keys (EvServerCreate opts r # xs) = uploaded_keys xs"
  "uploaded_keys (EvActionWait a w # xs) = uploaded_keys xs"
  by (simp_all add: uploaded_keys_def map_filter_def)

lemma created_servers_simps [simp]:
  "created_servers [] = []"
  "created_servers (xs @ ys) = created_servers xs @ created_servers ys"
  "created_servers (EvSSHKeyCreate n p r # xs) = created_servers xs"
  "created_servers (EvServerCreate opts (Inr res) # xs)
     = Server_ID (Create_Server res) # created_servers xs"
  "created_servers (EvActionWait a w # xs) = created_servers xs"
  by (simp_all add: created_servers_def map_filter_def)

lemma local_events:
  "list_all is_local loc \<Longrightarrow>
     filter is_query loc = [] \<and> list_all (\<lambda>e. answered e = None) loc
     \<and> uploaded_keys loc = [] \<and> created_servers loc = []"
  by (induction loc)
    (auto simp: is_local_def is_query_def answered_def uploaded_keys_def created_servers_def
       map_filter_def split: event.splits)

lemma local_last:
  "list_all is_local loc \<Longrightarrow> loc \<noteq> [] \<Longrightarrow>
     \<not> is_query (last loc) \<and> last loc \<noteq> EvSleep t"
  by (induction loc) (auto simp: is_local_def is_query_def split: event.splits)

lemma polling_events:
  "polling i n pev \<Longrightarrow> uploaded_keys pev = [] \<and> created_servers pev = []"
  by (induction i n pev rule: polling.induct)
    (auto simp: uploaded_keys_def created_servers_def map_filter_def)

lemma polling_slept:
  "polling i n pev \<Longrightarrow> pev \<noteq> [] \<Longrightarrow> last pev = EvSleep t \<Longrightarrow>
     length (filter is_query pev) = n \<and> list_all (\<lambda>e. answered e = None) pev
     \<and> poll_result d pev = (None, d)"
  using polling_exhausted [of i n pev]
  by (auto simp: is_query_def poll_result_def)

lemma polling_found:
  "pev \<noteq> [] \<Longrightarrow> answered (last pev) = Some ip \<Longrightarrow>
     poll_result d pev = (None, d\<lparr>IPAddress := IP_String ip\<rparr>)"
  by (auto simp: poll_result_def answered_def split: event.splits sum.splits option.splits)

lemma poll_result_ids:
  "poll_result d pev = (r, d') \<Longrightarrow> ServerID d' = ServerID d \<and> SSHKeyID d' = SSHKeyID d"
  by (auto simp: poll_result_def split: if_splits event.splits sum.splits option.splits)

subsection \<open>Create, step by step\<close>

lemma generateSSHKey_trace:
  "generateSSHKey P d s = (r, d1, s1)
     \<Longrightarrow> \<exists>loc. trace s1 = trace s @ loc \<and> list_all is_local loc"
  by (auto simp: generateSSHKey_def do_GenerateKey_def do_MkdirAll_def do_WriteFile_def
        Let_def is_local_def split: if_splits prod.splits sum.splits option.splits)

lemma generateSSHKey_driver:
  "generateSSHKey P d s = (r, d1, s1)
     \<Longrightarrow> d1 = d \<or> d1 = d\<lparr>SSHKeyPath := filepath_Join [StorePath d, MachineName d @ ''_id_rsa'']\<rparr>"
  by (auto simp: generateSSHKey_def Let_def
        split: if_splits prod.splits sum.splits option.splits)

text \<open>From the upload on, the log of a \<open>Create\<close> is a run, with its result and record.\<close>

lemma Create_run:
  assumes "Create P d s = (out, d', s')" and "StorePath d \<noteq> []"
    and "generateSSHKey P d s = (Inr pk, d1, s1)"
  shows "\<exists>rem. trace s' = trace s1 @ rem \<and> remote_run d1 pk rem out d'"
  using assms
  apply (simp add: Create_def Let_def do_SSHKey_Create_def do_Server_Create_def
      do_WaitFor_def split: prod.splits sum.splits option.splits)
  apply (auto simp: remote_run_def uploaded_def created_def polled_def
      dest!: poll_spec0 split: if_splits)
  done

lemma Create_no_key:
  assumes "Create P d s = (out, d', s')" and "StorePath d \<noteq> []"
    and "generateSSHKey P d s = (Inl e, d1, s1)"
  shows "out = Returned (Some (GeneratingSSHKey e)) \<and> d' = d1 \<and> s' = s1"
  using assms by (simp add: Create_def)

lemma Create_no_store:
  assumes "Create P d s = (out, d', s')" and "StorePath d = []"
  shows "out = Returned (Some StorePathEmptyCreate) \<and> d' = d \<and> s' = s"
  using assms by (auto simp: Create_def)

subsection \<open>The run written out\<close>

lemma created_cases:
  assumes "created d3 res es out d'"
  shows "(\<exists>a c. es = [EvActionWait a (Some c)]
            \<and> out = Returned (Some (WaitingForCreation c)) \<and> d' = d3)
     \<or> (\<exists>wait pev. es = wait @ pev \<and> (wait = [] \<or> (\<exists>a. wait = [EvActionWait a None]))
            \<and> polled d3 pev out d')"
proof (cases "Create_Action res")
  case None
  with assms have "es = [] @ es \<and> polled d3 es out d'" by (simp add: created_def)
  then show ?thesis by blast
next
  case (Some a)
  with assms obtain e es' where es: "es = e # es'"
    by (cases es) (auto simp: created_def)
  with assms Some obtain a' w where e: "e = EvActionWait a' w"
    by (cases e) (auto simp: created_def)
  show ?thesis
  proof (cases w)
    case None
    with assms Some es e have "es = [EvActionWait a' None] @ es' \<and> polled d3 es' out d'"
      by (simp add: created_def)
    then show ?thesis by blast
  next
    case c: (Some c)
    with assms Some es e show ?thesis by (simp add: created_def)
  qed
qed

lemma uploaded_cases:
  assumes "uploaded d2 hkey es out d'"
  shows "\<exists>opts r es'. es = EvServerCreate opts r # es' \<and> Opts_SSHKeys opts = [hkey]
       \<and> (case r of
             Inl c \<Rightarrow> es' = [] \<and> out = Returned (Some (ErrorCreatingServer c)) \<and> d' = d2
           | Inr res \<Rightarrow>
               created (d2\<lparr>ServerID := Server_ID (Create_Server res)\<rparr>) res es' out d')"
proof -
  from assms obtain e es' where es: "es = e # es'"
    by (cases es) (auto simp: uploaded_def)
  with assms obtain opts r where e: "e = EvServerCreate opts r"
    by (cases e) (auto simp: uploaded_def)
  from assms es e show ?thesis by (auto simp: uploaded_def)
qed

lemma remote_run_cases:
  assumes "remote_run d1 pk es out d'"
  shows "\<exists>name pub r es'. es = EvSSHKeyCreate name pub r # es'
       \<and> (case r of
             Inl c \<Rightarrow> es' = [] \<and> out = Returned (Some (CreatingSSHKeyInCloud c)) \<and> d' = d1
           | Inr hkey \<Rightarrow> uploaded (d1\<lparr>SSHKeyID := SSHKey_ID hkey\<rparr>) hkey es' out d')"
proof -
  from assms obtain e es' where es: "es = e # es'"
    by (cases es) (auto simp: remote_run_def)
  with assms obtain name pub r where e: "e = EvSSHKeyCreate name pub r"
    by (cases e) (auto simp: remote_run_def)
  from assms es e show ?thesis by (auto simp: remote_run_def)
qed

text \<open>The four shapes of a run.\<close>

lemma remote_run_shape:
  assumes "remote_run d1 pk rem out d'"
  shows "(\<exists>name pub c. rem = [EvSSHKeyCreate name pub (Inl c)])
      \<or> (\<exists>name pub hkey opts c.
            rem = [EvSSHKeyCreate name pub (Inr hkey), EvServerCreate opts (Inl c)]
            \<and> Opts_SSHKeys opts = [hkey])
      \<or> (\<exists>name pub hkey opts res wait pev.
            rem = EvSSHKeyCreate name pub (Inr hkey) # EvServerCreate opts (Inr res) # wait @ pev
            \<and> Opts_SSHKeys opts = [hkey]
            \<and> (wait = [] \<or> (\<exists>a r. wait = [EvActionWait a r]))
            \<and> (pev = [] \<or> polling (Server_ID (Create_Server res)) 30 pev))"
proof -
  from remote_run_cases [OF assms] obtain name pub r es' where
    rem: "rem = EvSSHKeyCreate name pub r # es'"
    and r: "case r of
              Inl c \<Rightarrow> es' = [] \<and> out = Returned (Some (CreatingSSHKeyInCloud c)) \<and> d' = d1
            | Inr hkey \<Rightarrow> uploaded (d1\<lparr>SSHKeyID := SSHKey_ID hkey\<rparr>) hkey es' out d'"
    by blast
  show ?thesis
  proof (cases r)
    case (Inl c)
    with rem r show ?thesis by simp
  next
    case (Inr hkey)
    let ?d2 = "d1\<lparr>SSHKeyID := SSHKey_ID hkey\<rparr>"
    from r Inr have "uploaded ?d2 hkey es' out d'" by simp
    from uploaded_cases [OF this] obtain opts b es'' where
      es': "es' = EvServerCreate opts b # es''" and k: "Opts_SSHKeys opts = [hkey]"
      and b: "case b of
                Inl c \<Rightarrow> es'' = [] \<and> out = Returned (Some (ErrorCreatingServer c)) \<and> d' = ?d2
              | Inr res \<Rightarrow>
                  created (?d2\<lparr>ServerID := Server_ID (Create_Server res)\<rparr>) res es'' out d'"
      by blast
    show ?thesis
    proof (cases b)
      case (Inl c)
      with rem Inr es' k b show ?thesis by simp
    next
      case res: (Inr res)
      let ?d3 = "?d2\<lparr>ServerID := Server_ID (Create_Server res)\<rparr>"
      from b res have "created ?d3 res es'' out d'" by simp
      from created_cases [OF this] consider
        (failed) a c where "es'' = [EvActionWait a (Some c)]"
        | (waited) wait pev where "es'' = wait @ pev"
            "wait = [] \<or> (\<exists>a. wait = [EvActionWait a None])" "polled ?d3 pev out d'"
        by blast
      then have "\<exists>wait pev. es'' = wait @ pev \<and> (wait = [] \<or> (\<exists>a r. wait = [EvActionWait a r]))
              \<and> (pev = [] \<or> polling (Server_ID (Create_Server res)) 30 pev)"
      proof cases
        case failed
        then have "es'' = [EvActionWait a (Some c)] @ []
            \<and> ([EvActionWait a (Some c)] = [] \<or> (\<exists>a' r. [EvActionWait a (Some c)] = [EvActionWait a' r]))
            \<and> ([] = [] \<or> polling (Server_ID (Create_Server res)) 30 [])"
          by simp
        then show ?thesis by (intro exI)
      next
        case waited
        from waited(3) have "polling (Server_ID (Create_Server res)) 30 pev"
          by (simp add: polled_def)
        with waited(1,2) have "es'' = wait @ pev
            \<and> (wait = [] \<or> (\<exists>a r. wait = [EvActionWait a r]))
            \<and> (pev = [] \<or> polling (Server_ID (Create_Server res)) 30 pev)"
          by auto
        then show ?thesis by (intro exI)
      qed
      then obtain wait pev where w: "es'' = wait @ pev"
        "wait = [] \<or> (\<exists>a r. wait = [EvActionWait a r])"
        "pev = [] \<or> polling (Server_ID (Create_Server res)) 30 pev" by blast
      have "rem = EvSSHKeyCreate name pub (Inr hkey) # EvServerCreate opts (Inr res) # wait @ pev"
        using rem Inr es' res w(1) by simp
      with k w(2,3) have "\<exists>name pub hkey opts res wait pev.
            rem = EvSSHKeyCreate name pub (Inr hkey) # EvServerCreate opts (Inr res) # wait @ pev
            \<and> Opts_SSHKeys opts = [hkey]
            \<and> (wait = [] \<or> (\<exists>a r. wait = [EvActionWait a r]))
            \<and> (pev = [] \<or> polling (Server_ID (Create_Server res)) 30 pev)"
        by (intro exI conjI)
      then show ?thesis by blast
    qed
  qed
qed

text \<open>A run whose last call is a query or a sleep got as far as the poll.\<close>

lemma remote_run_polled:
  assumes run: "remote_run d1 pk rem out d'"
    and last: "is_query (last rem) \<or> last rem = EvSleep t"
  shows "\<exists>pre pev (hkey :: SSHKey) (res :: ServerCreateResult). rem = pre @ pev \<and> pev \<noteq> []
       \<and> filter is_query pre = [] \<and> list_all (\<lambda>e. answered e = None) pre
       \<and> uploaded_keys pre = [SSHKey_ID hkey]
       \<and> created_servers pre = [Server_ID (Create_Server res)]
       \<and> polled (d1\<lparr>SSHKeyID := SSHKey_ID hkey, ServerID := Server_ID (Create_Server res)\<rparr>)
            pev out d'"
proof -
  from remote_run_cases [OF run] obtain name pub r es' where
    rem: "rem = EvSSHKeyCreate name pub r # es'"
    and r: "case r of
              Inl c \<Rightarrow> es' = [] \<and> out = Returned (Some (CreatingSSHKeyInCloud c)) \<and> d' = d1
            | Inr hkey \<Rightarrow> uploaded (d1\<lparr>SSHKeyID := SSHKey_ID hkey\<rparr>) hkey es' out d'"
    by blast
  show ?thesis
  proof (cases r)
    case (Inl c)
    with rem r last show ?thesis by simp
  next
    case (Inr hkey)
    let ?d2 = "d1\<lparr>SSHKeyID := SSHKey_ID hkey\<rparr>"
    from r Inr have "uploaded ?d2 hkey es' out d'" by simp
    from uploaded_cases [OF this] obtain opts b es'' where
      es': "es' = EvServerCreate opts b # es''"
      and b: "case b of
                Inl c \<Rightarrow> es'' = [] \<and> out = Returned (Some (ErrorCreatingServer c)) \<and> d' = ?d2
              | Inr res \<Rightarrow>
                  created (?d2\<lparr>ServerID := Server_ID (Create_Server res)\<rparr>) res es'' out d'"
      by blast
    show ?thesis
    proof (cases b)
      case (Inl c)
      with rem es' b last show ?thesis by simp
    next
      case res: (Inr res)
      let ?d3 = "d1\<lparr>SSHKeyID := SSHKey_ID hkey, ServerID := Server_ID (Create_Server res)\<rparr>"
      from b res have "created ?d3 res es'' out d'" by simp
      from created_cases [OF this] consider
        (failed) a c where "es'' = [EvActionWait a (Some c)]"
        | (waited) wait pev where "es'' = wait @ pev"
            "wait = [] \<or> (\<exists>a. wait = [EvActionWait a None])" "polled ?d3 pev out d'"
        by blast
      then show ?thesis
      proof cases
        case failed
        with rem es' last show ?thesis by simp
      next
        case waited
        let ?pre = "EvSSHKeyCreate name pub (Inr hkey) # EvServerCreate opts (Inr res) # wait"
        from waited(3) have ne: "pev \<noteq> []" by (auto simp: polled_def)
        have e1: "rem = ?pre @ pev" using rem Inr es' res waited(1) by simp
        have e2: "filter is_query ?pre = []" using waited(2) by auto
        have e3: "list_all (\<lambda>e. answered e = None) ?pre" using waited(2) by auto
        have e4: "uploaded_keys ?pre = [SSHKey_ID hkey]" using waited(2) by auto
        have e5: "created_servers ?pre = [Server_ID (Create_Server res)]"
          using waited(2) by auto
        show ?thesis
          apply (rule exI [of _ ?pre], rule exI [of _ pev], rule exI [of _ hkey],
              rule exI [of _ res])
          using e1 ne e2 e3 e4 e5 waited(3) by (intro conjI)
      qed
    qed
  qed
qed

text \<open>The same for the whole log of a \<open>Create\<close>.\<close>

lemma Create_polled:
  assumes c: "Create P d s = (out, d', s')"
    and t: "trace s' = trace s @ evs"
    and ne: "evs \<noteq> []"
    and last: "is_query (last evs) \<or> last evs = EvSleep t"
  shows "\<exists>pre pev d3. evs = pre @ pev \<and> pev \<noteq> []
       \<and> filter is_query pre = [] \<and> list_all (\<lambda>e. answered e = None) pre
       \<and> uploaded_keys pre = [SSHKeyID d3] \<and> created_servers pre = [ServerID d3]
       \<and> IPAddress d3 = IPAddress d \<and> polled d3 pev out d'"
proof (cases "StorePath d = []")
  case True
  from Create_no_store [OF c True] t ne show ?thesis by simp
next
  case sp: False
  obtain r d1 s1 where g: "generateSSHKey P d s = (r, d1, s1)"
    by (cases "generateSSHKey P d s")
  from generateSSHKey_trace [OF g] obtain loc where
    t1: "trace s1 = trace s @ loc" and loc: "list_all is_local loc" by blast
  from generateSSHKey_driver [OF g] have a1: "IPAddress d1 = IPAddress d" by auto
  show ?thesis
  proof (cases r)
    case (Inl e)
    with Create_no_key [OF c sp] g have "s' = s1" by simp
    with t t1 have "evs = loc" by simp
    with ne last local_last [OF loc, of t] show ?thesis by simp
  next
    case (Inr pk)
    with Create_run [OF c sp] g obtain rem where
      t2: "trace s' = trace s1 @ rem" and run: "remote_run d1 pk rem out d'" by blast
    from t t1 t2 have evs: "evs = loc @ rem" by simp
    from run have "rem \<noteq> []" by (auto simp: remote_run_def)
    with evs last have "is_query (last rem) \<or> last rem = EvSleep t" by simp
    from remote_run_polled [OF run this] obtain pre pev
      and hkey :: SSHKey and res :: ServerCreateResult where
      rem: "rem = pre @ pev" and pne: "pev \<noteq> []"
      and pre: "filter is_query pre = []" "list_all (\<lambda>e. answered e = None) pre"
        "uploaded_keys pre = [SSHKey_ID hkey]"
        "created_servers pre = [Server_ID (Create_Server res)]"
      and p: "polled (d1\<lparr>SSHKeyID := SSHKey_ID hkey, ServerID := Server_ID (Create_Server res)\<rparr>)
                pev out d'"
      by blast
    let ?d3 = "d1\<lparr>SSHKeyID := SSHKey_ID hkey, ServerID := Server_ID (Create_Server res)\<rparr>"
    have f1: "evs = (loc @ pre) @ pev" using evs rem by simp
    have f2: "filter is_query (loc @ pre) = []
        \<and> list_all (\<lambda>e. answered e = None) (loc @ pre)
        \<and> uploaded_keys (loc @ pre) = [SSHKeyID ?d3]
        \<and> created_servers (loc @ pre) = [ServerID ?d3]"
      using pre local_events [OF loc] by simp
    have f3: "IPAddress ?d3 = IPAddress d" using a1 by simp
    show ?thesis
      apply (rule exI [of _ "loc @ pre"], rule exI [of _ pev], rule exI [of _ ?d3])
      using f1 pne f2 f3 p by (intro conjI) blast+
  qed
qed

subsection \<open>What a Create returns, read off its log\<close>

lemma answered_query: "answered e = Some ip \<Longrightarrow> is_query e"
  by (auto simp: answered_def is_query_def split: event.splits)

lemma Create_trace:
  assumes c: "Create P d s = (out, d', s')"
  shows "\<exists>evs. trace s' = trace s @ evs"
proof (cases "StorePath d = []")
  case True
  from Create_no_store [OF c True] show ?thesis by simp
next
  case sp: False
  obtain r d1 s1 where g: "generateSSHKey P d s = (r, d1, s1)"
    by (cases "generateSSHKey P d s")
  from generateSSHKey_trace [OF g] obtain loc where
    t1: "trace s1 = trace s @ loc" by blast
  show ?thesis
  proof (cases r)
    case (Inl e)
    with Create_no_key [OF c sp] g t1 show ?thesis by simp
  next
    case (Inr pk)
    with Create_run [OF c sp] g obtain rem where "trace s' = trace s1 @ rem" by blast
    with t1 show ?thesis by simp
  qed
qed

lemma Create_shape:
  assumes c: "Create P d s = (out, d', s')"
  shows "\<exists>loc rem. trace s' = trace s @ loc @ rem \<and> list_all is_local loc \<and>
     (rem = []
      \<or> (\<exists>name pub c. rem = [EvSSHKeyCreate name pub (Inl c)])
      \<or> (\<exists>name pub hkey opts c.
            rem = [EvSSHKeyCreate name pub (Inr hkey), EvServerCreate opts (Inl c)]
            \<and> Opts_SSHKeys opts = [hkey])
      \<or> (\<exists>name pub hkey opts res wait pev.
            rem = EvSSHKeyCreate name pub (Inr hkey) # EvServerCreate opts (Inr res) # wait @ pev
            \<and> Opts_SSHKeys opts = [hkey]
            \<and> (wait = [] \<or> (\<exists>a r. wait = [EvActionWait a r]))
            \<and> (pev = [] \<or> polling (Server_ID (Create_Server res)) 30 pev)))"
proof -
  define shape where "shape rem \<longleftrightarrow>
     (rem = []
      \<or> (\<exists>name pub c. rem = [EvSSHKeyCreate name pub (Inl c)])
      \<or> (\<exists>name pub hkey opts c.
            rem = [EvSSHKeyCreate name pub (Inr hkey), EvServerCreate opts (Inl c)]
            \<and> Opts_SSHKeys opts = [hkey])
      \<or> (\<exists>name pub hkey opts res wait pev.
            rem = EvSSHKeyCreate name pub (Inr hkey) # EvServerCreate opts (Inr res) # wait @ pev
            \<and> Opts_SSHKeys opts = [hkey]
            \<and> (wait = [] \<or> (\<exists>a r. wait = [EvActionWait a r]))
            \<and> (pev = [] \<or> polling (Server_ID (Create_Server res)) 30 pev)))" for rem
  have "\<exists>loc rem. trace s' = trace s @ loc @ rem \<and> list_all is_local loc \<and> shape rem"
  proof (cases "StorePath d = []")
    case True
    from Create_no_store [OF c True]
    have "trace s' = trace s @ [] @ [] \<and> list_all is_local [] \<and> shape []"
      by (simp add: shape_def)
    then show ?thesis by (intro exI)
  next
    case sp: False
    obtain r d1 s1 where g: "generateSSHKey P d s = (r, d1, s1)"
      by (cases "generateSSHKey P d s")
    from generateSSHKey_trace [OF g] obtain loc where
      t1: "trace s1 = trace s @ loc" and loc: "list_all is_local loc" by blast
    show ?thesis
    proof (cases r)
      case (Inl e)
      with Create_no_key [OF c sp] g t1 loc
      have "trace s' = trace s @ loc @ [] \<and> list_all is_local loc \<and> shape []"
        by (simp add: shape_def)
      then show ?thesis by (intro exI)
    next
      case (Inr pk)
      with Create_run [OF c sp] g obtain rem where
        t2: "trace s' = trace s1 @ rem" and run: "remote_run d1 pk rem out d'" by blast
      from remote_run_shape [OF run] have "shape rem"
        by (simp only: shape_def) blast
      with t1 t2 loc have "trace s' = trace s @ loc @ rem \<and> list_all is_local loc \<and> shape rem"
        by simp
      then show ?thesis by (intro exI)
    qed
  qed
  then show ?thesis by (simp only: shape_def)
qed

lemma Create_no_address:
  assumes "IPAddress d = []" and c: "Create P d s = (out, d', s')"
    and "out \<noteq> Returned None"
  shows "IPAddress d' = []"
proof (cases "StorePath d = []")
  case True
  from Create_no_store [OF c True] assms(1) show ?thesis by simp
next
  case sp: False
  obtain r d1 s1 where g: "generateSSHKey P d s = (r, d1, s1)"
    by (cases "generateSSHKey P d s")
  from generateSSHKey_driver [OF g] assms(1) have d1: "IPAddress d1 = []" by auto
  show ?thesis
    using sp g d1 assms(2,3)
    apply (simp add: Create_def Let_def split: prod.splits sum.splits option.splits if_splits)
    apply (auto dest!: poll_spec0 simp: poll_result_def
        split: if_splits event.splits sum.splits option.splits)
    done
qed

subsection \<open>The key path\<close>

lemma split_sep_not_empty: "split_sep p \<noteq> []"
  by (induction p) (auto split: list.splits)

lemma split_sep_append:
  "split_sep (a @ CHR ''/'' # b) = split_sep a @ split_sep b"
proof (induction a)
  case Nil
  show ?case by simp
next
  case (Cons c a)
  obtain x xs where "split_sep a = x # xs"
    using split_sep_not_empty [of a] by (cases "split_sep a") auto
  with Cons show ?case by simp
qed

lemma split_sep_plain: "CHR ''/'' \<notin> set f \<Longrightarrow> split_sep f = [f]"
  by (induction f) auto

lemma join_sep_snoc:
  "join_sep (ys @ [f]) = (if ys = [] then f else join_sep ys @ ''/'' @ f)"
  by (induction ys rule: join_sep.induct) auto

lemma Join_plain:
  assumes "dir \<noteq> []" and "plain_name f"
  shows "filepath_Join [dir, f] = dir_prefix dir @ f"
proof -
  let ?rooted = "hd dir = CHR ''/''"
  let ?st = "fold (clean_step ?rooted) (split_sep dir) []"
  have f: "CHR ''/'' \<notin> set f" "f \<noteq> []" "f \<noteq> ''.''" "f \<noteq> ''..''"
    using assms(2) by (simp_all add: plain_name_def)
  have "split_sep (dir @ CHR ''/'' # f) = split_sep dir @ [f]"
    using f(1) by (simp add: split_sep_append split_sep_plain)
  then have "fold (clean_step ?rooted) (split_sep (dir @ CHR ''/'' # f)) [] = f # ?st"
    using f by (simp add: clean_step_def)
  moreover have "hd (dir @ CHR ''/'' # f) = hd dir"
    using assms(1) by simp
  ultimately have "filepath_Clean (dir @ CHR ''/'' # f) = dir_prefix dir @ f"
    using f(2) by (simp add: filepath_Clean_def dir_prefix_def Let_def join_sep_snoc)
  then show ?thesis using assms(1) by (simp add: filepath_Join_def)
qed

lemma plain_key_file: "plain_name (name @ ''_id_rsa'') = (CHR ''/'' \<notin> set name)"
  by (auto simp: plain_name_def append_eq_Cons_conv)

lemma key_path_injective:
  assumes "dir \<noteq> []" and "CHR ''/'' \<notin> set n1" and "CHR ''/'' \<notin> set n2"
    and "filepath_Join [dir, n1 @ ''_id_rsa''] = filepath_Join [dir, n2 @ ''_id_rsa'']"
  shows "n1 = n2"
  using assms by (simp add: Join_plain plain_key_file)

lemma generateSSHKey_calls:
  "generateSSHKey P d s = (r, d', s') \<Longrightarrow>
     (case r of
        Inr pub \<Rightarrow>
          StorePath d \<noteq> [] \<and>
          (\<exists>key. fst (rsa_GenerateKey P 2048 (world s)) = Inr key \<and>
             trace s' = trace s @
               [EvGenerateKey 2048, EvMkdirAll (StorePath d) mode_0700 None,
                EvWriteFile (SSHKeyPath d') (pem_EncodePrivateKey P key) mode_0600 None])
          \<and> d' = d\<lparr>SSHKeyPath := filepath_Join [StorePath d, MachineName d @ ''_id_rsa'']\<rparr>
      | Inl e \<Rightarrow>
          d' = d \<and>
          (\<forall>c. e = CreatingStoreDirectory c \<longrightarrow>
             trace s' = trace s @
               [EvGenerateKey 2048, EvMkdirAll (StorePath d) mode_0700 (Some c)]))"
  by (auto simp: generateSSHKey_def do_GenerateKey_def do_MkdirAll_def do_WriteFile_def
        Let_def split: if_splits prod.splits sum.splits option.splits)

lemma generateSSHKey_success:
  "generateSSHKey P d s = (Inr pub, d', s') \<Longrightarrow>
     StorePath d \<noteq> [] \<and>
     (\<exists>key. fst (rsa_GenerateKey P 2048 (world s)) = Inr key \<and>
        trace s' = trace s @
          [EvGenerateKey 2048, EvMkdirAll (StorePath d) mode_0700 None,
           EvWriteFile (SSHKeyPath d') (pem_EncodePrivateKey P key) mode_0600 None])
     \<and> d' = d\<lparr>SSHKeyPath := filepath_Join [StorePath d, MachineName d @ ''_id_rsa'']\<rparr>"
  by (auto simp: generateSSHKey_def do_GenerateKey_def do_MkdirAll_def do_WriteFile_def
        Let_def split: if_splits prod.splits sum.splits option.splits)

lemma owner_only: "mode_0700 AND group_other = 0 \<and> mode_0600 AND group_other = 0"
  by (simp add: mode_0700_def mode_0600_def group_other_def)

section \<open>The claims\<close>

text \<open>
  C3. The translation from the provider's status to the run state is total: \<open>running\<close>
  is \<open>Running\<close>, \<open>off\<close> is \<open>Stopped\<close> and every other string is \<open>StateNone\<close>, and
  that is what \<open>GetState\<close> returns, with no error, whenever the provider answers with a
  server.
\<close>

theorem status_translation_total:
  "switch_Status ''running'' = Running
   \<and> switch_Status ''off'' = Stopped
   \<and> (st \<noteq> ''running'' \<longrightarrow> st \<noteq> ''off'' \<longrightarrow> switch_Status st = StateNone)
   \<and> switch_Status st \<in> {Running, Stopped, StateNone}
   \<and> (ServerID d \<noteq> 0 \<longrightarrow> Server_GetByID P (ServerID d) (world s) = (Inr (Some srv), w)
        \<longrightarrow> fst (GetState P d s) = Returned (switch_Status (Server_Status srv), None))"
  by (simp add: switch_Status_def ServerStatusRunning_def ServerStatusOff_def GetState_def
      do_Server_GetByID_def)

theorem status_translation_total_witness:
  "switch_Status ''initializing'' = StateNone
   \<and> fst (GetState (fake_gateway 1) (configured\<lparr>ServerID := 42\<rparr>) start)
       = Returned (Running, None)"
  using status_translation_total [where st = "''initializing''"
      and d = "configured\<lparr>ServerID := 42\<rparr>" and P = "fake_gateway 1" and s = start
      and srv = "fake_server True" and w = 1]
  by (simp add: fake_gateway_def fake_server_def start_def)

text \<open>
  C5. With an empty API token \<open>SetConfigFromFlags\<close> and \<open>PreCreateCheck\<close> fail with the
  configuration error, with a non-empty one they succeed. Neither function is given the
  world: they make no call outside the package.
\<close>

theorem credential_required:
  "(opts ''hetzner-api-token'' = [] \<longrightarrow> fst (SetConfigFromFlags opts d) = Some TokenRequired)
   \<and> (opts ''hetzner-api-token'' \<noteq> [] \<longrightarrow> fst (SetConfigFromFlags opts d) = None)
   \<and> (APIToken d = [] \<longrightarrow> PreCreateCheck d = Some TokenRequired)
   \<and> (APIToken d \<noteq> [] \<longrightarrow> PreCreateCheck d = None)"
  by (simp add: SetConfigFromFlags_def PreCreateCheck_def Let_def)

theorem credential_required_witness:
  "fst (SetConfigFromFlags (\<lambda>flag. []) (NewDriver ''node1'' ''/store'')) = Some TokenRequired
   \<and> fst (SetConfigFromFlags scenario_opts (NewDriver ''node1'' ''/store'')) = None
   \<and> PreCreateCheck (NewDriver ''node1'' ''/store'') = Some TokenRequired
   \<and> PreCreateCheck configured = None"
  using credential_required [where opts = "\<lambda>flag. []" and d = "NewDriver ''node1'' ''/store''"]
    credential_required [where opts = scenario_opts and d = "NewDriver ''node1'' ''/store''"]
    credential_required [where opts = scenario_opts and d = configured]
  by (simp add: scenario_opts_def NewDriver_def configured_def SetConfigFromFlags_def Let_def)

text \<open>
  C10. \<open>SetConfigFromFlags\<close> with an empty token returns the error and a changed record:
  the server type, image, region and SSH user are already overwritten.
\<close>

theorem SetConfigFromFlags_not_atomic:
  "opts ''hetzner-api-token'' = [] \<Longrightarrow>
   SetConfigFromFlags opts d =
     (Some TokenRequired,
      d\<lparr>APIToken := [], ServerType := opts ''hetzner-server-type'',
        Image := opts ''hetzner-image'', Region := opts ''hetzner-location'',
        SSHUser := ''root''\<rparr>)"
  by (simp add: SetConfigFromFlags_def Let_def)

theorem SetConfigFromFlags_not_atomic_witness:
  "SetConfigFromFlags (scenario_opts(''hetzner-api-token'' := []))
       (configured\<lparr>ServerType := ''cx51'', SSHUser := ''admin''\<rparr>)
     = (Some TokenRequired, configured\<lparr>APIToken := []\<rparr>)
   \<and> configured\<lparr>APIToken := []\<rparr> \<noteq> configured\<lparr>ServerType := ''cx51'', SSHUser := ''admin''\<rparr>"
proof -
  have h: "(scenario_opts(''hetzner-api-token'' := [])) ''hetzner-api-token'' = []" by simp
  show ?thesis
    using h SetConfigFromFlags_not_atomic [where opts = "scenario_opts(''hetzner-api-token'' := [])"
        and d = "configured\<lparr>ServerType := ''cx51'', SSHUser := ''admin''\<rparr>"]
    by (simp add: scenario_opts_def configured_def NewDriver_def SetConfigFromFlags_def Let_def)
qed

text \<open>
  C7. \<open>GetIP\<close> fails with \<open>IP address not available\<close> exactly when the record holds no
  address, as on a new record and after any \<open>Create\<close> on such a record that did not
  succeed; \<open>GetURL\<close> is \<open>tcp://\<close>, the address and \<open>:2376\<close> when there is an address,
  and fails when there is none.
\<close>

theorem address_accessors:
  "(IPAddress d = [] \<longrightarrow>
      GetIP d = ([], Some IPAddressNotAvailable) \<and> GetURL d = ([], Some NoIPAddressYet))
   \<and> (IPAddress d \<noteq> [] \<longrightarrow>
      GetIP d = (IPAddress d, None) \<and> GetURL d = (''tcp://'' @ IPAddress d @ '':2376'', None))
   \<and> GetIP (NewDriver machineName storePath) = ([], Some IPAddressNotAvailable)
   \<and> (IPAddress d = [] \<longrightarrow> Create P d s = (out, d', s') \<longrightarrow> out \<noteq> Returned None
        \<longrightarrow> GetIP d' = ([], Some IPAddressNotAvailable))"
  using Create_no_address [of d P s out d' s']
  by (simp add: GetIP_def GetURL_def NewDriver_def)

theorem address_accessors_witness:
  "GetIP configured = ([], Some IPAddressNotAvailable)
   \<and> GetURL configured = ([], Some NoIPAddressYet)
   \<and> GetIP (fst (snd (Create (fake_gateway 1) configured start))) = (''203.0.113.5'', None)
   \<and> GetURL (fst (snd (Create (fake_gateway 1) configured start)))
       = (''tcp://203.0.113.5:2376'', None)
   \<and> fst (Create (fake_gateway 31) configured start) \<noteq> Returned None
   \<and> GetIP (fst (snd (Create (fake_gateway 31) configured start)))
       = ([], Some IPAddressNotAvailable)"
proof -
  have c1: "IPAddress configured = []" by code_simp
  have c2: "IPAddress (fst (snd (Create (fake_gateway 1) configured start))) = ''203.0.113.5''"
    by code_simp
  have c3: "fst (Create (fake_gateway 31) configured start) \<noteq> Returned None"
    by code_simp
  obtain out d' s' where c4: "Create (fake_gateway 31) configured start = (out, d', s')"
    by (cases "Create (fake_gateway 31) configured start")
  show ?thesis
    using address_accessors [where d = configured and P = "fake_gateway 31" and s = start
        and out = out and d' = d' and s' = s']
      address_accessors [where d = "fst (snd (Create (fake_gateway 1) configured start))"]
      c1 c2 c3 c4
    by simp
qed

text \<open>
  C8. The calls of one \<open>Create\<close>, in the order they are made: the local calls of the key
  generation, then the key upload, then the creation of the server with exactly the key
  the upload returned, then the wait for the creation's action if it has one, then the
  poll of the created server; a call is made only after the one before it has succeeded.
\<close>

theorem Create_call_order:
  "\<exists>loc rem. trace (snd (snd (Create P d s))) = trace s @ loc @ rem
     \<and> list_all is_local loc \<and>
     (rem = []
      \<or> (\<exists>name pub c. rem = [EvSSHKeyCreate name pub (Inl c)])
      \<or> (\<exists>name pub hkey opts c.
            rem = [EvSSHKeyCreate name pub (Inr hkey), EvServerCreate opts (Inl c)]
            \<and> Opts_SSHKeys opts = [hkey])
      \<or> (\<exists>name pub hkey opts res wait pev.
            rem = EvSSHKeyCreate name pub (Inr hkey) # EvServerCreate opts (Inr res) # wait @ pev
            \<and> Opts_SSHKeys opts = [hkey]
            \<and> (wait = [] \<or> (\<exists>a r. wait = [EvActionWait a r]))
            \<and> (pev = [] \<or> polling (Server_ID (Create_Server res)) 30 pev)))"
proof -
  obtain out d' s' where c: "Create P d s = (out, d', s')"
    by (cases "Create P d s")
  from Create_shape [OF c] c show ?thesis by simp
qed

theorem Create_call_order_witness:
  "trace (snd (snd (Create (fake_gateway 2) configured start))) =
     [EvGenerateKey 2048, EvMkdirAll ''/store'' mode_0700 None,
      EvWriteFile ''/store/node1_id_rsa'' ''PRIVATE'' mode_0600 None,
      EvSSHKeyCreate ''rancher-node1'' ''ssh-rsa AAAA''
        (Inr \<lparr>SSHKey_ID = 7, SSHKey_Name = ''rancher-node1'',
              SSHKey_PublicKey = ''ssh-rsa AAAA''\<rparr>),
      EvServerCreate
        \<lparr>Opts_Name = ''node1'', Opts_ServerType = ''cx11'', Opts_Image = ''ubuntu-20.04'',
         Opts_Location = ''nbg1'',
         Opts_SSHKeys = [\<lparr>SSHKey_ID = 7, SSHKey_Name = ''rancher-node1'',
                          SSHKey_PublicKey = ''ssh-rsa AAAA''\<rparr>]\<rparr>
        (Inr \<lparr>Create_Server = fake_server False, Create_Action = None\<rparr>),
      EvServerGetByID 42 (Inr (Some (fake_server False))),
      EvSleep (2 * time_Second),
      EvServerGetByID 42 (Inr (Some (fake_server True)))]
   \<and> (\<exists>loc rem. trace (snd (snd (Create (fake_gateway 2) configured start)))
          = trace start @ loc @ rem
     \<and> list_all is_local loc \<and>
     (rem = []
      \<or> (\<exists>name pub c. rem = [EvSSHKeyCreate name pub (Inl c)])
      \<or> (\<exists>name pub hkey opts c.
            rem = [EvSSHKeyCreate name pub (Inr hkey), EvServerCreate opts (Inl c)]
            \<and> Opts_SSHKeys opts = [hkey])
      \<or> (\<exists>name pub hkey opts res wait pev.
            rem = EvSSHKeyCreate name pub (Inr hkey) # EvServerCreate opts (Inr res) # wait @ pev
            \<and> Opts_SSHKeys opts = [hkey]
            \<and> (wait = [] \<or> (\<exists>a r. wait = [EvActionWait a r]))
            \<and> (pev = [] \<or> polling (Server_ID (Create_Server res)) 30 pev))))"
proof -
  have "trace (snd (snd (Create (fake_gateway 2) configured start))) =
     [EvGenerateKey 2048, EvMkdirAll ''/store'' mode_0700 None,
      EvWriteFile ''/store/node1_id_rsa'' ''PRIVATE'' mode_0600 None,
      EvSSHKeyCreate ''rancher-node1'' ''ssh-rsa AAAA''
        (Inr \<lparr>SSHKey_ID = 7, SSHKey_Name = ''rancher-node1'',
              SSHKey_PublicKey = ''ssh-rsa AAAA''\<rparr>),
      EvServerCreate
        \<lparr>Opts_Name = ''node1'', Opts_ServerType = ''cx11'', Opts_Image = ''ubuntu-20.04'',
         Opts_Location = ''nbg1'',
         Opts_SSHKeys = [\<lparr>SSHKey_ID = 7, SSHKey_Name = ''rancher-node1'',
                          SSHKey_PublicKey = ''ssh-rsa AAAA''\<rparr>]\<rparr>
        (Inr \<lparr>Create_Server = fake_server False, Create_Action = None\<rparr>),
      EvServerGetByID 42 (Inr (Some (fake_server False))),
      EvSleep (2 * time_Second),
      EvServerGetByID 42 (Inr (Some (fake_server True)))]"
    by code_simp
  then show ?thesis
    using Create_call_order [of "fake_gateway 2" configured start] by blast
qed

text \<open>
  C9, as the claim states it, fails: on a record whose server id is set, where the
  provider answers the fetch with no server and no error, \<open>Start\<close>, \<open>Stop\<close> and
  \<open>Restart\<close> each make the fetch and then return nil: the test \<open>srv != nil\<close> skips the
  action, so no power on, power off or reboot is issued after the fetch.
\<close>

theorem power_operations_missing_server:
  "Start gone_gateway (configured\<lparr>ServerID := 42\<rparr>) start
     = (None, \<lparr>world = 1, trace = [EvServerGetByID 42 (Inr None)]\<rparr>)
   \<and> Stop gone_gateway (configured\<lparr>ServerID := 42\<rparr>) start
     = (None, \<lparr>world = 1, trace = [EvServerGetByID 42 (Inr None)]\<rparr>)
   \<and> Restart gone_gateway (configured\<lparr>ServerID := 42\<rparr>) start
     = (None, \<lparr>world = 1, trace = [EvServerGetByID 42 (Inr None)]\<rparr>)"
  by code_simp

text \<open>
  C9, amended. \<open>Start\<close>, \<open>Stop\<close> and \<open>Restart\<close> fail with \<open>server ID not set\<close> and make
  no call when the server id is zero. Otherwise each first fetches the server; when the
  fetch fails the operation fails and makes no other call, when it finds no server the
  operation returns nil and makes no other call, and when it finds the server the
  operation issues its own action on it (power on, power off, reboot) and returns that
  action's result. \<open>Kill\<close> is \<open>Stop\<close>, in the earlier variant too.
\<close>

theorem power_operations:
  "(ServerID d = 0 \<longrightarrow>
      Start P d s = (Some ServerIDNotSet, s) \<and> Stop P d s = (Some ServerIDNotSet, s)
      \<and> Restart P d s = (Some ServerIDNotSet, s))
   \<and> (ServerID d \<noteq> 0 \<longrightarrow> Server_GetByID P (ServerID d) (world s) = (a, w) \<longrightarrow>
        (case a of
           Inl c \<Rightarrow>
             Start P d s = (Some (CannotFetchServer (ServerID d) c),
                            s\<lparr>world := w, trace := trace s @ [EvServerGetByID (ServerID d) a]\<rparr>)
             \<and> Stop P d s = Start P d s \<and> Restart P d s = Start P d s
         | Inr None \<Rightarrow>
             Start P d s = (None, s\<lparr>world := w, trace := trace s @ [EvServerGetByID (ServerID d) a]\<rparr>)
             \<and> Stop P d s = Start P d s \<and> Restart P d s = Start P d s
         | Inr (Some srv) \<Rightarrow>
             Start P d s =
               (map_option (PoweringOn (ServerID d)) (fst (Server_Poweron P srv w)),
                s\<lparr>world := snd (Server_Poweron P srv w),
                  trace := trace s @ [EvServerGetByID (ServerID d) a,
                                      EvPoweron srv (fst (Server_Poweron P srv w))]\<rparr>)
             \<and> Stop P d s =
               (map_option (PoweringOff (ServerID d)) (fst (Server_Poweroff P srv w)),
                s\<lparr>world := snd (Server_Poweroff P srv w),
                  trace := trace s @ [EvServerGetByID (ServerID d) a,
                                      EvPoweroff srv (fst (Server_Poweroff P srv w))]\<rparr>)
             \<and> Restart P d s =
               (map_option (Rebooting (ServerID d)) (fst (Server_Reboot P srv w)),
                s\<lparr>world := snd (Server_Reboot P srv w),
                  trace := trace s @ [EvServerGetByID (ServerID d) a,
                                      EvReboot srv (fst (Server_Reboot P srv w))]\<rparr>)))
   \<and> Kill P d s = Stop P d s
   \<and> Kill_proto d = Stop_proto d"
  by (auto simp: Start_def Stop_def Restart_def Kill_def Kill_proto_def Stop_proto_def
      do_Server_GetByID_def do_Poweron_def do_Poweroff_def do_Reboot_def logged_def
      split: sum.splits option.splits prod.splits)

theorem power_operations_witness:
  "Start (fake_gateway 1) configured start = (Some ServerIDNotSet, start)
   \<and> Stop (fake_gateway 1) (configured\<lparr>ServerID := 42\<rparr>) start =
       (None, \<lparr>world = 1, trace = [EvServerGetByID 42 (Inr (Some (fake_server True))),
                                     EvPoweroff (fake_server True) None]\<rparr>)
   \<and> Kill (fake_gateway 1) (configured\<lparr>ServerID := 42\<rparr>) start =
       Stop (fake_gateway 1) (configured\<lparr>ServerID := 42\<rparr>) start"
proof -
  have z: "ServerID configured = 0" by code_simp
  have g: "Server_GetByID (fake_gateway 1) (ServerID (configured\<lparr>ServerID := 42\<rparr>)) (world start)
             = (Inr (Some (fake_server True)), 1)"
    by (simp add: fake_gateway_def start_def)
  show ?thesis
    using z g power_operations [where P = "fake_gateway 1" and d = configured and s = start]
      power_operations [where P = "fake_gateway 1" and d = "configured\<lparr>ServerID := 42\<rparr>"
        and s = start and a = "Inr (Some (fake_server True))" and w = 1]
    by (simp add: fake_gateway_def start_def)
qed

text \<open>
  C2, as the claim states it, fails: where the provider answers the deletion of the
  server with \<open>NotFoundError\<close>, \<open>Remove\<close> returns that as its error and never asks for
  the deletion of the key.
\<close>

theorem Remove_not_best_effort:
  "Remove gone_gateway (configured\<lparr>ServerID := 42, SSHKeyID := 7\<rparr>) start
     = (Some (DeletingServer 42 NotFoundError),
        \<lparr>world = 0, trace = [EvServerDelete 42 (Inl NotFoundError)]\<rparr>)"
  by code_simp

text \<open>
  C2, amended. \<open>Remove\<close> deletes the server when its id is not zero, waits for the
  action of the deletion if there is one, and then deletes the key when its id is not
  zero. The first call that fails, whatever the failure, ends \<open>Remove\<close> with that call's
  error: a failed call is the last call, and \<open>Remove\<close> returns nil exactly when no call
  failed.
\<close>

theorem Remove_stops_at_first_failure:
  "Remove P d s = (res, s') \<Longrightarrow>
     \<exists>evs. trace s' = trace s @ evs \<and> removal d evs res
       \<and> (res = None \<longleftrightarrow> \<not> list_ex failed evs) \<and> \<not> list_ex failed (butlast evs)"
  by (auto simp: Remove_def Let_def removal_def key_removal_def do_Server_Delete_def
      do_WaitFor_def do_SSHKey_Delete_def failed_def
      split: if_splits prod.splits sum.splits option.splits)

theorem Remove_stops_at_first_failure_witness:
  "Remove (fake_gateway 1) (configured\<lparr>ServerID := 42, SSHKeyID := 7\<rparr>) start
     = (None, \<lparr>world = 0, trace = [EvServerDelete 42 (Inr \<lparr>Delete_Action = None\<rparr>),
                                     EvSSHKeyDelete 7 None]\<rparr>)
   \<and> removal (configured\<lparr>ServerID := 42, SSHKeyID := 7\<rparr>)
        [EvServerDelete 42 (Inr \<lparr>Delete_Action = None\<rparr>), EvSSHKeyDelete 7 None] None"
proof -
  have r: "Remove (fake_gateway 1) (configured\<lparr>ServerID := 42, SSHKeyID := 7\<rparr>) start
     = (None, \<lparr>world = 0, trace = [EvServerDelete 42 (Inr \<lparr>Delete_Action = None\<rparr>),
                                     EvSSHKeyDelete 7 None]\<rparr>)"
    by code_simp
  from Remove_stops_at_first_failure [OF r] show ?thesis
    using r by (simp add: start_def)
qed

text \<open>
  C4, as the claim states it, fails: \<open>filepath.Join\<close> cleans the path, so the machine
  names \<open>web\<close> and \<open>./web\<close> under one storage directory get the same key file.
\<close>

theorem key_path_collision:
  "SSHKeyPath (fst (snd (generateSSHKey (fake_gateway 1) (NewDriver ''web'' ''/store'') start)))
     = ''/store/web_id_rsa''
   \<and> SSHKeyPath (fst (snd (generateSSHKey (fake_gateway 1) (NewDriver ''./web'' ''/store'') start)))
     = ''/store/web_id_rsa''"
  by code_simp

text \<open>
  C4, amended. A \<open>generateSSHKey\<close> that succeeds has asked for the storage directory to
  be made with mode \<open>0700\<close> and, after that succeeded, for the private key to be written
  with mode \<open>0600\<close> (neither mode has a bit for the group or the others) to the path
  \<open>filepath.Join(StorePath, MachineName + "_id_rsa")\<close>, which it records as the key
  path. Under one storage directory, two machine names without a path separator never
  get the same key path.
\<close>

theorem generateSSHKey_key_file:
  assumes "generateSSHKey P d s = (Inr pub, d', s')"
  shows "(\<exists>key. fst (rsa_GenerateKey P 2048 (world s)) = Inr key \<and>
            trace s' = trace s @
              [EvGenerateKey 2048, EvMkdirAll (StorePath d) mode_0700 None,
               EvWriteFile (SSHKeyPath d') (pem_EncodePrivateKey P key) mode_0600 None])
     \<and> SSHKeyPath d' = filepath_Join [StorePath d, MachineName d @ ''_id_rsa'']
     \<and> mode_0700 AND group_other = 0 \<and> mode_0600 AND group_other = 0
     \<and> (generateSSHKey P2 d2 s2 = (Inr pub2, d2', s2') \<longrightarrow> StorePath d2 = StorePath d
          \<longrightarrow> CHR ''/'' \<notin> set (MachineName d) \<longrightarrow> CHR ''/'' \<notin> set (MachineName d2)
          \<longrightarrow> SSHKeyPath d2' = SSHKeyPath d' \<longrightarrow> MachineName d2 = MachineName d)"
proof -
  from generateSSHKey_success [OF assms] have
    sp: "StorePath d \<noteq> []"
    and tr: "\<exists>key. fst (rsa_GenerateKey P 2048 (world s)) = Inr key \<and>
            trace s' = trace s @
              [EvGenerateKey 2048, EvMkdirAll (StorePath d) mode_0700 None,
               EvWriteFile (SSHKeyPath d') (pem_EncodePrivateKey P key) mode_0600 None]"
    and d': "d' = d\<lparr>SSHKeyPath := filepath_Join [StorePath d, MachineName d @ ''_id_rsa'']\<rparr>"
    by blast+
  have path: "SSHKeyPath d' = filepath_Join [StorePath d, MachineName d @ ''_id_rsa'']"
    using d' by simp
  have inj: "MachineName d2 = MachineName d"
    if g2: "generateSSHKey P2 d2 s2 = (Inr pub2, d2', s2')" and same: "StorePath d2 = StorePath d"
      and n1: "CHR ''/'' \<notin> set (MachineName d)" and n2: "CHR ''/'' \<notin> set (MachineName d2)"
      and eq: "SSHKeyPath d2' = SSHKeyPath d'"
  proof -
    from generateSSHKey_success [OF g2] have
      "d2' = d2\<lparr>SSHKeyPath := filepath_Join [StorePath d2, MachineName d2 @ ''_id_rsa'']\<rparr>"
      by blast
    then have "SSHKeyPath d2' = filepath_Join [StorePath d, MachineName d2 @ ''_id_rsa'']"
      using same by simp
    with eq path show ?thesis
      using key_path_injective [OF sp n2 n1] by simp
  qed
  show ?thesis using tr path owner_only inj by blast
qed

theorem generateSSHKey_key_file_witness:
  "generateSSHKey (fake_gateway 1) (NewDriver ''node1'' ''/store'') start
     = (Inr ''ssh-rsa AAAA'', (NewDriver ''node1'' ''/store'')\<lparr>SSHKeyPath := ''/store/node1_id_rsa''\<rparr>,
        \<lparr>world = 0, trace = [EvGenerateKey 2048, EvMkdirAll ''/store'' mode_0700 None,
             EvWriteFile ''/store/node1_id_rsa'' ''PRIVATE'' mode_0600 None]\<rparr>)
   \<and> SSHKeyPath (fst (snd (generateSSHKey (fake_gateway 1) (NewDriver ''node2'' ''/store'') start)))
       \<noteq> ''/store/node1_id_rsa''
   \<and> filepath_Join [''/store'', ''node1'' @ ''_id_rsa''] = ''/store/node1_id_rsa''"
proof -
  let ?d1 = "NewDriver ''node1'' ''/store''"
  let ?d2 = "NewDriver ''node2'' ''/store''"
  have g1: "generateSSHKey (fake_gateway 1) ?d1 start
     = (Inr ''ssh-rsa AAAA'', ?d1\<lparr>SSHKeyPath := ''/store/node1_id_rsa''\<rparr>,
        \<lparr>world = 0, trace = [EvGenerateKey 2048, EvMkdirAll ''/store'' mode_0700 None,
             EvWriteFile ''/store/node1_id_rsa'' ''PRIVATE'' mode_0600 None]\<rparr>)"
    by code_simp
  obtain d2' s2' where g2: "generateSSHKey (fake_gateway 1) ?d2 start
     = (Inr ''ssh-rsa AAAA'', d2', s2')"
    by (cases "generateSSHKey (fake_gateway 1) ?d2 start")
      (simp add: generateSSHKey_def NewDriver_def fake_gateway_def do_GenerateKey_def
         do_MkdirAll_def do_WriteFile_def Let_def split: prod.splits)
  have names: "StorePath ?d2 = StorePath ?d1" "CHR ''/'' \<notin> set (MachineName ?d1)"
    "CHR ''/'' \<notin> set (MachineName ?d2)" "MachineName ?d2 \<noteq> MachineName ?d1"
    by (simp_all add: NewDriver_def)
  from generateSSHKey_key_file [OF g1, where ?P2.0 = "fake_gateway 1" and ?d2.0 = ?d2
      and ?s2.0 = start and ?pub2.0 = "''ssh-rsa AAAA''" and ?d2' = d2' and ?s2' = s2']
  show ?thesis using g1 g2 names by (auto simp: NewDriver_def)
qed

text \<open>
  The earlier \<open>generateSSHKey\<close> writes every machine's key to the same file of the
  storage directory.
\<close>

lemma generateSSHKey_proto_path:
  "generateSSHKey_proto P d s = (Inr pub, d', s')
     \<Longrightarrow> SSHKeyPath d' = filepath_Join [StorePath d, ''id_rsa'']"
  by (auto simp: generateSSHKey_proto_def Let_def
      split: prod.splits sum.splits option.splits)

text \<open>
  C1. The failing input: a record that already holds an address, and a provider whose
  thirty answers carry none. \<open>Create\<close> makes its thirty queries, finds no address and
  returns nil, the old address still in the record.
\<close>

theorem Create_stale_address_no_timeout:
  "fst (Create (fake_gateway 31) (configured\<lparr>IPAddress := ''198.51.100.7''\<rparr>) start)
     = Returned None
   \<and> length (filter is_query
        (trace (snd (snd (Create (fake_gateway 31) (configured\<lparr>IPAddress := ''198.51.100.7''\<rparr>) start)))))
     = 30
   \<and> list_all (\<lambda>e. answered e = None)
        (trace (snd (snd (Create (fake_gateway 31) (configured\<lparr>IPAddress := ''198.51.100.7''\<rparr>) start))))
   \<and> IPAddress (fst (snd (Create (fake_gateway 31) (configured\<lparr>IPAddress := ''198.51.100.7''\<rparr>) start)))
     = ''198.51.100.7''"
  by code_simp

text \<open>
  C6. On the same input the identifiers are left as the claim says, 42 for the server
  and 7 for the key, but \<open>Create\<close> does not fail.
\<close>

theorem Create_stale_address_identifiers:
  "(case Create (fake_gateway 31) (configured\<lparr>IPAddress := ''198.51.100.7''\<rparr>) start of
      (out, d', s') \<Rightarrow> (out, ServerID d', SSHKeyID d', world s'))
     = (Returned None, 42, 7, 30)"
  by code_simp

section \<open>Further properties of Create and of a missing server\<close>

text \<open>
  When the log of a \<open>Create\<close> ends with a sleep, the bound of the poll is used up:
  the poll made exactly thirty queries and none was answered with an address. \<open>Create\<close>
  then returns the error \<open>server %d has no public IPv4 after timeout\<close> if the record
  held no address before, and nil if it held one; the address of the record is unchanged,
  and its server and key identifiers are the ones this creation and this upload returned.
\<close>

theorem Create_poll_exhausted:
  assumes c: "Create P d s = (out, d', s')"
    and t: "trace s' = trace s @ evs"
    and ne: "evs \<noteq> []"
    and sl: "last evs = EvSleep t"
  shows "length (filter is_query evs) = 30
     \<and> list_all (\<lambda>e. answered e = None) evs
     \<and> out = (if IPAddress d = [] then Returned (Some (NoPublicIPv4AfterTimeout (ServerID d')))
              else Returned None)
     \<and> IPAddress d' = IPAddress d
     \<and> uploaded_keys evs = [SSHKeyID d'] \<and> created_servers evs = [ServerID d']"
proof -
  from sl have "is_query (last evs) \<or> last evs = EvSleep t" by simp
  from Create_polled [OF c t ne this] obtain pre pev d3 where
    evs: "evs = pre @ pev" and pne: "pev \<noteq> []"
    and pre: "filter is_query pre = []" "list_all (\<lambda>e. answered e = None) pre"
      "uploaded_keys pre = [SSHKeyID d3]" "created_servers pre = [ServerID d3]"
    and a: "IPAddress d3 = IPAddress d" and p: "polled d3 pev out d'"
    by blast
  from p have pol: "polling (ServerID d3) 30 pev" by (simp add: polled_def)
  from evs pne sl have "last pev = EvSleep t" by simp
  from polling_slept [OF pol pne this, of d3] have
    n: "length (filter is_query pev) = 30" and nn: "list_all (\<lambda>e. answered e = None) pev"
    and r: "poll_result d3 pev = (None, d3)" by simp_all
  from p r have d': "d' = d3"
    and out: "out = (if IPAddress d3 = []
                 then Returned (Some (NoPublicIPv4AfterTimeout (ServerID d3)))
                 else Returned None)"
    by (simp_all add: polled_def)
  from evs pre n nn polling_events [OF pol] d' out a show ?thesis by simp
qed

theorem Create_poll_exhausted_witness:
  "last (trace (snd (snd (Create (fake_gateway 31) configured start)))) = EvSleep (2 * time_Second)
   \<and> Create (fake_gateway 31) configured start =
       (Returned (Some (NoPublicIPv4AfterTimeout 42)),
        configured\<lparr>SSHKeyPath := ''/store/node1_id_rsa'', ServerID := 42, SSHKeyID := 7\<rparr>,
        snd (snd (Create (fake_gateway 31) configured start)))
   \<and> length (filter is_query (trace (snd (snd (Create (fake_gateway 31) configured start))))) = 30
   \<and> uploaded_keys (trace (snd (snd (Create (fake_gateway 31) configured start)))) = [7]
   \<and> created_servers (trace (snd (snd (Create (fake_gateway 31) configured start)))) = [42]"
proof -
  let ?s' = "snd (snd (Create (fake_gateway 31) configured start))"
  let ?d' = "configured\<lparr>SSHKeyPath := ''/store/node1_id_rsa'', ServerID := 42, SSHKeyID := 7\<rparr>"
  have out: "fst (Create (fake_gateway 31) configured start)
      = Returned (Some (NoPublicIPv4AfterTimeout 42))"
    by code_simp
  have d': "fst (snd (Create (fake_gateway 31) configured start)) = ?d'"
    by code_simp
  have c: "Create (fake_gateway 31) configured start
      = (Returned (Some (NoPublicIPv4AfterTimeout 42)), ?d', ?s')"
    using out d' by (simp add: prod_eq_iff)
  have t: "trace ?s' = trace start @ trace ?s'" by (simp add: start_def)
  have ne: "trace ?s' \<noteq> []" by code_simp
  have sl: "last (trace ?s') = EvSleep (2 * time_Second)" by code_simp
  from Create_poll_exhausted [OF c t ne sl] c sl show ?thesis by simp
qed

text \<open>
  When the last call of a \<open>Create\<close> is a query answered with an address, \<open>Create\<close>
  returns nil and the record holds that address in dotted decimal, which \<open>GetIP\<close>
  returns and \<open>GetURL\<close> puts between \<open>tcp://\<close> and \<open>:2376\<close>; there were at most thirty
  queries, and the identifiers are the ones this creation and this upload returned.
\<close>

theorem Create_address_found:
  assumes c: "Create P d s = (out, d', s')"
    and t: "trace s' = trace s @ evs"
    and ne: "evs \<noteq> []"
    and ip: "answered (last evs) = Some ip"
  shows "out = Returned None \<and> IPAddress d' = IP_String ip
     \<and> GetIP d' = (IP_String ip, None)
     \<and> GetURL d' = (''tcp://'' @ IP_String ip @ '':2376'', None)
     \<and> length (filter is_query evs) \<le> 30
     \<and> uploaded_keys evs = [SSHKeyID d'] \<and> created_servers evs = [ServerID d']"
proof -
  from answered_query [OF ip] have "is_query (last evs) \<or> last evs = EvSleep 0" by simp
  from Create_polled [OF c t ne this] obtain pre pev d3 where
    evs: "evs = pre @ pev" and pne: "pev \<noteq> []"
    and pre: "filter is_query pre = []" "list_all (\<lambda>e. answered e = None) pre"
      "uploaded_keys pre = [SSHKeyID d3]" "created_servers pre = [ServerID d3]"
    and a: "IPAddress d3 = IPAddress d" and p: "polled d3 pev out d'"
    by blast
  from p have pol: "polling (ServerID d3) 30 pev" by (simp add: polled_def)
  from evs pne ip have "answered (last pev) = Some ip" by simp
  from polling_found [OF pne this, of d3] have
    r: "poll_result d3 pev = (None, d3\<lparr>IPAddress := IP_String ip\<rparr>)" .
  from p r have d': "d' = d3\<lparr>IPAddress := IP_String ip\<rparr>" and out: "out = Returned None"
    by (simp_all add: polled_def)
  from evs pre polling_queries [OF pol] polling_events [OF pol] d' out show ?thesis
    by (simp add: GetIP_def GetURL_def)
qed

theorem Create_address_found_witness:
  "answered (last (trace (snd (snd (Create (fake_gateway 30) configured start)))))
     = Some (IPv4 203 0 113 5)
   \<and> fst (Create (fake_gateway 30) configured start) = Returned None
   \<and> GetURL (fst (snd (Create (fake_gateway 30) configured start)))
       = (''tcp://203.0.113.5:2376'', None)
   \<and> length (filter is_query (trace (snd (snd (Create (fake_gateway 30) configured start))))) = 30"
proof -
  let ?out = "fst (Create (fake_gateway 30) configured start)"
  let ?d' = "fst (snd (Create (fake_gateway 30) configured start))"
  let ?s' = "snd (snd (Create (fake_gateway 30) configured start))"
  have c: "Create (fake_gateway 30) configured start = (?out, ?d', ?s')" by simp
  have t: "trace ?s' = trace start @ trace ?s'" by (simp add: start_def)
  have ne: "trace ?s' \<noteq> []" by code_simp
  have ip: "answered (last (trace ?s')) = Some (IPv4 203 0 113 5)" by code_simp
  have s: "IP_String (IPv4 203 0 113 5) = ''203.0.113.5''" by code_simp
  have n: "length (filter is_query (trace ?s')) = 30" by code_simp
  from Create_address_found [OF c t ne ip] have r: "?out = Returned None"
    and u: "GetURL ?d' = (''tcp://'' @ IP_String (IPv4 203 0 113 5) @ '':2376'', None)"
    by blast+
  from u have u': "GetURL ?d' = (''tcp://203.0.113.5:2376'', None)"
    by (simp only: s) simp
  from r u' ip n show ?thesis by blast
qed

text \<open>
  When the provider answers the fetch with no server and no error, \<open>GetState\<close> panics
  on \<open>srv.Status\<close> and the poll of \<open>Create\<close> on \<open>srv.PublicNet\<close>, while \<open>Start\<close>,
  \<open>Stop\<close> and \<open>Restart\<close>, which test \<open>srv != nil\<close>, return nil.
\<close>

theorem missing_server:
  assumes "ServerID d \<noteq> 0" and "Server_GetByID P (ServerID d) (world s) = (Inr None, w)"
  shows "fst (GetState P d s) = Panicked
     \<and> fst (poll P 0 d s) = Some Panicked
     \<and> fst (Start P d s) = None \<and> fst (Stop P d s) = None \<and> fst (Restart P d s) = None"
  using assms
  by (simp add: GetState_def Start_def Stop_def Restart_def do_Server_GetByID_def poll.simps)

theorem missing_server_witness:
  "GetState gone_gateway (configured\<lparr>ServerID := 42\<rparr>) start
     = (Panicked, \<lparr>world = 1, trace = [EvServerGetByID 42 (Inr None)]\<rparr>)
   \<and> Start gone_gateway (configured\<lparr>ServerID := 42\<rparr>) start
     = (None, \<lparr>world = 1, trace = [EvServerGetByID 42 (Inr None)]\<rparr>)"
proof -
  have z: "ServerID (configured\<lparr>ServerID := 42\<rparr>) \<noteq> 0" by simp
  have g: "Server_GetByID gone_gateway (ServerID (configured\<lparr>ServerID := 42\<rparr>)) (world start)
             = (Inr None, 1)"
    by (simp add: gone_gateway_def start_def)
  have e: "snd (GetState gone_gateway (configured\<lparr>ServerID := 42\<rparr>) start)
             = \<lparr>world = 1, trace = [EvServerGetByID 42 (Inr None)]\<rparr>
           \<and> snd (Start gone_gateway (configured\<lparr>ServerID := 42\<rparr>) start)
             = \<lparr>world = 1, trace = [EvServerGetByID 42 (Inr None)]\<rparr>"
    by code_simp
  from missing_server [OF z g] e show ?thesis by (simp add: prod_eq_iff)
qed

end
